theory Spec2Isabelle
  imports Complex_Main
begin

section \<open>Data model\<close>

text \<open>
  The custodial withdrawal engine: the single-flight \<open>WithdrawalQueue\<close>
  (\<open>withdrawalQueue.ts\<close>) and the two chain services it dispatches to that live in this
  repository, \<open>SolanaService\<close> and \<open>MoneroService\<close>.

  Conventions of the embedding.
  \<^item> The \<open>transaction\<close> table is a list of rows; \<open>models.transaction.update\<close> rewrites
    every row matching its \<open>where\<close> clause and returns the number of matching rows,
    \<open>findOne\<close> returns the first matching row.
  \<^item> Every awaited call to a collaborator (chain RPC, e-mail queue, refund, ledger,
    notification) has its outcome supplied by an environment record; an outcome is
    either a value or the message of the exception the call raised.
  \<^item> An asynchronous function returns the table it leaves behind, the list of external
    calls it made, in order, and its result: \<open>Inl msg\<close> for a rejected promise
    (\<open>error.message = msg\<close>), \<open>Inr v\<close> for a resolved one.
  \<^item> A JavaScript number is the rational it denotes. The operators \<open>*\<close> and \<open>/\<close> round
    their exact result to the nearest double, ties to even; \<open>Math.round\<close> and \<open>toFixed\<close>
    are exact functions of the double. The rounding is that of normal doubles of
    magnitude at least \<open>2\<^sup>-\<^sup>1\<^sup>2\<^sup>8\<close>; overflow to infinity and NaN do not occur in the
    amounts considered and are not modelled.
\<close>

datatype Status = PENDING | PROCESSING | COMPLETED | FAILED

datatype TxType = DEPOSIT | WITHDRAWAL

record Wallet =
  walletType :: string
  currency :: string

text \<open>
  \<open>transaction.metadata\<close> is either a JSON string or an object. \<open>MetaInvalidJson msg\<close> is
  a string on which \<open>JSON.parse\<close> raises with message \<open>msg\<close>; \<open>MetaNull\<close> is a null
  (or JSON \<open>null\<close>) metadata; \<open>MetaObj chain toAddress\<close> is an object whose \<open>chain\<close>
  member is \<open>None\<close> when absent.
\<close>

datatype Metadata = MetaInvalidJson string | MetaNull | MetaObj "string option" string

record TransactionRecord =
  txId :: string
  walletId :: string
  userId :: string
  txType :: TxType
  amount :: rat
  fee :: "rat option"
  status :: Status
  referenceId :: "string option"
  metadata :: Metadata
  description :: "string option"
  wallet :: "Wallet option"

type_synonym Db = "TransactionRecord list"

text \<open>
  External calls, in the order they are made. A chain RPC (\<open>SolRpc\<close>,
  \<open>SolSendRawTransaction\<close>, \<open>XmrWalletRpc\<close>, \<open>XmrTransferRpc\<close>, \<open>ExternalTransfer\<close>) and
  \<open>Refund\<close> are recorded when the call is made, whatever its outcome;
  \<open>ConfirmationEmail\<close>, \<open>FailedEmail\<close>, \<open>AdminProfit\<close>, \<open>Notification\<close> and
  \<open>StoreAndBroadcast\<close> are recorded when the call returned: an e-mail job queued, a
  ledger row created, a notification delivered, a deposit broadcast. \<open>Log\<close> is a
  console message.
\<close>

datatype Effect =
    SolRpc string
  | SolSendRawTransaction string string int
  | XmrWalletRpc string
  | XmrTransferRpc string int
  | ExternalTransfer string string string rat string
  | ConfirmationEmail string string string string
  | AdminProfit rat string string string
  | Refund TransactionRecord
  | FailedEmail string string string string
  | Notification string string
  | StoreAndBroadcast string string rat "rat option"
  | Log string

section \<open>The transaction table\<close>

definition updateWhere ::
  "(TransactionRecord \<Rightarrow> bool) \<Rightarrow> (TransactionRecord \<Rightarrow> TransactionRecord) \<Rightarrow> Db \<Rightarrow> Db \<times> nat" where
  "updateWhere P f db = (map (\<lambda>r. if P r then f r else r) db, length (filter P db))"

definition findOne :: "(TransactionRecord \<Rightarrow> bool) \<Rightarrow> Db \<Rightarrow> TransactionRecord option" where
  "findOne P db = find P db"

text \<open>
  \<open>update({status: "PROCESSING"}, {where: {id, status: "PENDING"}})\<close>
  (withdrawalQueue.ts, lines 79-89).
\<close>

definition markProcessing :: "string \<Rightarrow> Db \<Rightarrow> Db \<times> nat" where
  "markProcessing i db =
     updateWhere (\<lambda>r. txId r = i \<and> status r = PENDING) (\<lambda>r. r\<lparr>status := PROCESSING\<rparr>) db"

text \<open>\<open>update({status: "COMPLETED", referenceId}, {where: {id}})\<close> of both chain services.\<close>

definition markCompleted :: "string \<Rightarrow> string \<Rightarrow> Db \<Rightarrow> Db" where
  "markCompleted i ref db =
     fst (updateWhere (\<lambda>r. txId r = i)
            (\<lambda>r. r\<lparr>status := COMPLETED, referenceId := Some ref\<rparr>) db)"

text \<open>\<open>update({status: "FAILED", description}, {where: {id}})\<close> of the services and the queue.\<close>

definition markFailed :: "string \<Rightarrow> string \<Rightarrow> Db \<Rightarrow> Db" where
  "markFailed i desc db =
     fst (updateWhere (\<lambda>r. txId r = i)
            (\<lambda>r. r\<lparr>status := FAILED, description := Some desc\<rparr>) db)"

text \<open>
  The queue's lookup: \<open>findOne\<close> / \<open>findByPk\<close> with the wallet joined under
  \<open>where: {type: "ECO"}\<close>, an inner join, so a row whose wallet is not of type ECO is
  not returned.
\<close>

definition isEco :: "TransactionRecord \<Rightarrow> bool" where
  "isEco r = (case wallet r of None \<Rightarrow> False | Some w \<Rightarrow> walletType w = ''ECO'')"

definition findEcoTransaction :: "string \<Rightarrow> Db \<Rightarrow> TransactionRecord option" where
  "findEcoTransaction i db = findOne (\<lambda>r. txId r = i \<and> isEco r) db"

section \<open>Number conversions\<close>

text \<open>
  A double has a significand of 53 bits. \<open>bitLength n\<close> is the number of binary digits of
  a positive integer, and \<open>ulp x\<close> the distance between neighbouring doubles at the
  magnitude of \<open>x\<close>: \<open>2\<^sup>e\<^sup>-\<^sup>5\<^sup>2\<close> when \<open>2\<^sup>e \<le> \<bar>x\<bar> < 2\<^sup>e\<^sup>+\<^sup>1\<close>.
\<close>

function bitLength :: "int \<Rightarrow> nat" where
  "bitLength n = (if n \<le> 0 then 0 else Suc (bitLength (n div 2)))"
  by pat_completeness auto
termination by (relation "measure nat") auto

declare bitLength.simps [simp del]

definition ulp :: "rat \<Rightarrow> rat" where
  "ulp x = 2 ^ bitLength \<lfloor>\<bar>x\<bar> * 2 ^ 128\<rfloor> / 2 ^ 181"

text \<open>The nearest integer, a tie going to the even one.\<close>

definition roundHalfEven :: "rat \<Rightarrow> int" where
  "roundHalfEven y =
     (let f = \<lfloor>y\<rfloor>; r = y - of_int f
      in if r < 1 / 2 then f else if 1 / 2 < r then f + 1 else if even f then f else f + 1)"

text \<open>The double nearest to \<open>x\<close>: the multiple of \<open>ulp x\<close> nearest to it, ties to even.\<close>

definition roundToDouble :: "rat \<Rightarrow> rat" where
  "roundToDouble x =
     (if x = 0 then 0 else sgn x * (of_int (roundHalfEven (\<bar>x\<bar> / ulp x)) * ulp x))"

text \<open>The operators \<open>*\<close> and \<open>/\<close> on numbers.\<close>

definition fmul :: "rat \<Rightarrow> rat \<Rightarrow> rat" where
  "fmul a b = roundToDouble (a * b)"

definition fdiv :: "rat \<Rightarrow> rat \<Rightarrow> rat" where
  "fdiv a b = roundToDouble (a / b)"

text \<open>\<open>Math.round(x)\<close>: the nearest integer, a tie going up.\<close>

definition jsRound :: "rat \<Rightarrow> int" where
  "jsRound x = \<lfloor>x + 1 / 2\<rfloor>"

text \<open>
  \<open>x.toFixed(8)\<close>: the decimal numeral with eight fraction digits nearest to the double
  \<open>x\<close>, the larger one on a tie, the sign handled apart. The result is the number of
  units of \<open>10\<^sup>-\<^sup>8\<close> the numeral denotes.
\<close>

definition toFixed8 :: "rat \<Rightarrow> int" where
  "toFixed8 x = (if x < 0 then - \<lfloor>- x * 10 ^ 8 + 1 / 2\<rfloor> else \<lfloor>x * 10 ^ 8 + 1 / 2\<rfloor>)"

text \<open>\<open>Math.round(amount * 1e12)\<close>: whole XMR to atomic units (utils.ts, lines 1593, 1655).\<close>

definition xmrToAtomic :: "rat \<Rightarrow> int" where
  "xmrToAtomic a = jsRound (fmul a (10 ^ 12))"

text \<open>\<open>Math.round(amount * 1e9)\<close>: SOL to lamports (utils.ts, line 725).\<close>

definition solToLamports :: "rat \<Rightarrow> int" where
  "solToLamports a = jsRound (fmul a (10 ^ 9))"

text \<open>
  \<open>x / 1e12\<close> for an integer \<open>x\<close> of a JSON reply, which is read as the double nearest
  to it.
\<close>

definition atomicToXmr :: "nat \<Rightarrow> rat" where
  "atomicToXmr a = fdiv (roundToDouble (of_nat a)) (10 ^ 12)"

text \<open>
  \<open>x ? (x / 1e12).toFixed(8) : null\<close> (utils.ts, lines 1372-1375): a zero amount is falsy
  and gives null.
\<close>

definition atomicToFixed8 :: "nat \<Rightarrow> int option" where
  "atomicToFixed8 a = (if a = 0 then None else Some (toFixed8 (atomicToXmr a)))"

section \<open>Solana service\<close>

record SolanaService =
  sol_chainActive :: bool

text \<open>
  \<open>checkChainStatus\<close> (utils.ts, lines 186-204): the chain is active when the service
  directory lists a file whose name starts with \<open>sol.bin\<close>; \<open>None\<close> is a directory
  listing that raised.
\<close>

definition sol_checkChainStatus :: "string list option \<Rightarrow> SolanaService" where
  "sol_checkChainStatus dir =
     (case dir of
        None \<Rightarrow> \<lparr>sol_chainActive = False\<rparr>
      | Some files \<Rightarrow> \<lparr>sol_chainActive = list_ex (\<lambda>f. take 7 f = ''sol.bin'') files\<rparr>)"

definition sol_ensureChainActive :: "SolanaService \<Rightarrow> string + unit" where
  "sol_ensureChainActive svc =
     (if \<not> sol_chainActive svc then Inl ''Chain 'SOL' is not active in ecosystemBlockchain.''
      else Inr ())"

text \<open>
  \<open>createWallet\<close> (lines 218-241) starts with the liveness guard; key generation is
  outside the model, so a successful call returns unit.
\<close>

definition sol_createWallet :: "SolanaService \<Rightarrow> string + unit" where
  "sol_createWallet svc = sol_ensureChainActive svc"

text \<open>
  The \<open>err\<close> member of a transaction's \<open>meta\<close> is null or a \<open>TransactionError\<close>: a
  string (an error name) or an object, given here by its JSON text. A JavaScript string
  is truthy unless empty, an object always.
\<close>

datatype TransactionError = ErrName string | ErrObject string

fun truthy :: "TransactionError \<Rightarrow> bool" where
  "truthy (ErrName s) = (s \<noteq> [])"
| "truthy (ErrObject j) = True"

fun stringify :: "TransactionError \<Rightarrow> string" where
  "stringify (ErrName s) = CHR 0x22 # s @ [CHR 0x22]"
| "stringify (ErrObject j) = j"

record SolTxMeta =
  metaErr :: "TransactionError option"

record SolTxResult =
  txMeta :: "SolTxMeta option"

text \<open>
  Outcomes of the calls \<open>handleSolanaWithdrawal\<close> and \<open>transferSol\<close> make. For a call that
  returns nothing of interest, \<open>None\<close> is success and \<open>Some msg\<close> the exception raised.
\<close>

record SolEnv =
  validAddress :: bool
  walletDataFound :: bool
  decryptKey :: "string option"
  latestBlockhash :: "string option"
  sendRawTransaction :: "string + string"
  confirmTransaction :: "string option"
  getTransaction :: "string + SolTxResult option"

text \<open>The three-way test on the re-queried transaction (lines 841-850).\<close>

definition resolveTxResult :: "string \<Rightarrow> SolTxResult option \<Rightarrow> string + string" where
  "resolveTxResult signature txResult =
     (case txResult of
        None \<Rightarrow> Inl ''Transaction not found or not confirmed''
      | Some r \<Rightarrow>
          (case txMeta r of
             None \<Rightarrow> Inl ''Transaction not found or not confirmed''
           | Some m \<Rightarrow>
               (case metaErr m of
                  None \<Rightarrow> Inr signature
                | Some e \<Rightarrow>
                    if truthy e then Inl (''Transaction failed with error: '' @ stringify e)
                    else Inl ''Transaction not found or not confirmed'')))"

text \<open>The body of the \<open>try\<close> of \<open>transferSol\<close> (lines 776-850).\<close>

definition transferSol_try :: "SolEnv \<Rightarrow> string \<Rightarrow> string \<Rightarrow> int \<Rightarrow> Effect list \<times> (string + string)" where
  "transferSol_try env wid recipient lamports =
     (if \<not> walletDataFound env then ([], Inl ''Private key not found for the wallet'')
      else case decryptKey env of
        Some m \<Rightarrow> ([], Inl m)
      | None \<Rightarrow>
         (case latestBlockhash env of
            Some m \<Rightarrow> ([SolRpc ''getLatestBlockhash''], Inl m)
          | None \<Rightarrow>
             (case sendRawTransaction env of
                Inl m \<Rightarrow>
                  ([SolRpc ''getLatestBlockhash'',
                    SolSendRawTransaction wid recipient lamports], Inl m)
              | Inr signature \<Rightarrow>
                  (let confirmed =
                         (case confirmTransaction env of
                            None \<Rightarrow> []
                          | Some m \<Rightarrow> [Log (''Transaction confirmation failed: '' @ m)]);
                       effs = [SolRpc ''getLatestBlockhash'',
                               SolSendRawTransaction wid recipient lamports,
                               SolRpc ''confirmTransaction''] @ confirmed @
                              [SolRpc ''getTransaction'']
                   in case getTransaction env of
                        Inl m \<Rightarrow> (effs, Inl m)
                      | Inr txResult \<Rightarrow> (effs, resolveTxResult signature txResult)))))"

text \<open>\<open>transferSol\<close>: the outer \<open>catch\<close> rewraps every error (lines 851-854).\<close>

definition transferSol :: "SolEnv \<Rightarrow> string \<Rightarrow> string \<Rightarrow> int \<Rightarrow> Effect list \<times> (string + string)" where
  "transferSol env wid recipient lamports =
     (case transferSol_try env wid recipient lamports of
        (effs, Inl m) \<Rightarrow> (effs, Inl (''Failed to transfer SOL: '' @ m))
      | (effs, Inr signature) \<Rightarrow> (effs, Inr signature))"

text \<open>\<open>handleSolanaWithdrawal\<close> (lines 717-760). The service's liveness flag is not read.\<close>

definition handleSolanaWithdrawal_try ::
  "SolEnv \<Rightarrow> Db \<Rightarrow> string \<Rightarrow> string \<Rightarrow> rat \<Rightarrow> string \<Rightarrow> Db \<times> Effect list \<times> (string + unit)" where
  "handleSolanaWithdrawal_try env db transactionId wid amt toAddress =
     (if \<not> validAddress env then (db, [], Inl ''Invalid public key input'')
      else case transferSol env wid toAddress (solToLamports amt) of
        (effs, Inl m) \<Rightarrow> (db, effs, Inl m)
      | (effs, Inr signature) \<Rightarrow>
          if signature \<noteq> [] then (markCompleted transactionId signature db, effs, Inr ())
          else (db, effs, Inl ''Failed to receive transaction signature''))"

definition handleSolanaWithdrawal ::
  "SolanaService \<Rightarrow> SolEnv \<Rightarrow> Db \<Rightarrow> string \<Rightarrow> string \<Rightarrow> rat \<Rightarrow> string
     \<Rightarrow> Db \<times> Effect list \<times> (string + unit)" where
  "handleSolanaWithdrawal svc env db transactionId wid amt toAddress =
     (case handleSolanaWithdrawal_try env db transactionId wid amt toAddress of
        (db1, effs, Inl m) \<Rightarrow>
          (markFailed transactionId (''Withdrawal failed: '' @ m) db1, effs, Inl m)
      | (db1, effs, Inr u) \<Rightarrow> (db1, effs, Inr u))"

section \<open>Monero service\<close>

record MoneroService =
  xmr_chainActive :: bool

text \<open>
  \<open>checkChainStatus\<close> (lines 939-948): the argument is the truthiness of
  \<open>status?.result?.synchronized\<close> in the daemon's \<open>get_info\<close> reply.
\<close>

definition xmr_checkChainStatus :: "bool \<Rightarrow> MoneroService" where
  "xmr_checkChainStatus synchronized =
     (if synchronized then \<lparr>xmr_chainActive = True\<rparr> else \<lparr>xmr_chainActive = False\<rparr>)"

definition xmr_ensureChainActive :: "MoneroService \<Rightarrow> string + unit" where
  "xmr_ensureChainActive svc =
     (if \<not> xmr_chainActive svc then Inl ''Chain 'Monero' is not active.'' else Inr ())"

text \<open>
  A reply of \<open>makeRpcCall\<close>: the call raised (transport or HTTP error), or it returned a
  JSON-RPC reply without \<open>result\<close> (given by its \<open>error\<close> text), or one with \<open>result\<close>.
\<close>

datatype 'a Rpc = Raised string | ErrorReply string | Result 'a

text \<open>
  For the \<open>transfer\<close> reply the result is \<open>result.tx_hash\<close>, the empty string when the
  member is absent (both are falsy).
\<close>

record XmrEnv =
  openWalletReply :: "unit Rpc"
  transferReply :: "string Rpc"
  closeWalletReply :: "unit Rpc"

text \<open>
  \<open>openWallet\<close> and \<open>closeWallet\<close> (lines 1113-1140) run their RPC through
  \<open>addToQueue\<close>; \<open>processQueue\<close> catches whatever the queued operation raises and only
  logs it, so neither helper ever raises to its caller. The service's internal operation
  queue is empty and idle whenever one of the functions below is entered.
\<close>

definition xmr_openWallet :: "XmrEnv \<Rightarrow> Effect list" where
  "xmr_openWallet env =
     XmrWalletRpc ''open_wallet'' #
     (case openWalletReply env of
        Raised m \<Rightarrow> [Log (''Error processing Monero wallet operation: '' @ m)]
      | ErrorReply e \<Rightarrow>
          [Log (''Error processing Monero wallet operation: Failed to open wallet: '' @ e)]
      | Result u \<Rightarrow> [])"

definition xmr_closeWallet :: "XmrEnv \<Rightarrow> Effect list" where
  "xmr_closeWallet env =
     XmrWalletRpc ''close_wallet'' #
     (case closeWalletReply env of
        Raised m \<Rightarrow> [Log (''Error processing Monero wallet operation: '' @ m)]
      | ErrorReply e \<Rightarrow>
          [Log (''Error processing Monero wallet operation: Failed to close wallet: '' @ e)]
      | Result u \<Rightarrow> [])"

text \<open>
  \<open>handleMoneroWithdrawal\<close> (lines 1577-1623), called by the queue with the default
  priority. The service's liveness flag is not read.
\<close>

definition handleMoneroWithdrawal_try ::
  "XmrEnv \<Rightarrow> Db \<Rightarrow> string \<Rightarrow> string \<Rightarrow> rat \<Rightarrow> string \<Rightarrow> Db \<times> Effect list \<times> (string + unit)" where
  "handleMoneroWithdrawal_try env db transactionId wid amt toAddress =
     (let effs = xmr_openWallet env @ [XmrTransferRpc toAddress (xmrToAtomic amt)]
      in case transferReply env of
           Raised m \<Rightarrow> (db, effs, Inl m)
         | ErrorReply e \<Rightarrow> (db, effs, Inl ''Failed to execute Monero transaction.'')
         | Result tx_hash \<Rightarrow>
             if tx_hash = [] then (db, effs, Inl ''Failed to execute Monero transaction.'')
             else (markCompleted transactionId tx_hash db, effs, Inr ()))"

definition handleMoneroWithdrawal ::
  "MoneroService \<Rightarrow> XmrEnv \<Rightarrow> Db \<Rightarrow> string \<Rightarrow> string \<Rightarrow> rat \<Rightarrow> string
     \<Rightarrow> Db \<times> Effect list \<times> (string + unit)" where
  "handleMoneroWithdrawal svc env db transactionId wid amt toAddress =
     (case handleMoneroWithdrawal_try env db transactionId wid amt toAddress of
        (db1, effs, Inl m) \<Rightarrow>
          (markFailed transactionId (''Withdrawal failed: '' @ m) db1,
           effs @ xmr_closeWallet env, Inl m)
      | (db1, effs, Inr u) \<Rightarrow> (db1, effs @ xmr_closeWallet env, Inr u))"

text \<open>
  \<open>transferXMR\<close> (lines 1631-1688) returns a promise that the queued operation settles.
  The liveness guard is the first statement of the queued operation, outside its
  \<open>try\<close>: when it raises, \<open>processQueue\<close> logs the error and the promise is never
  settled.
\<close>

datatype 'a Settled = Resolved 'a | Rejected string | Unsettled

definition transferXMR ::
  "MoneroService \<Rightarrow> XmrEnv \<Rightarrow> string \<Rightarrow> string \<Rightarrow> rat \<Rightarrow> Effect list \<times> string Settled" where
  "transferXMR svc env walletName destinationAddress amountXMR =
     (case xmr_ensureChainActive svc of
        Inl m \<Rightarrow> ([Log (''Error processing Monero wallet operation: '' @ m)], Unsettled)
      | Inr u \<Rightarrow>
          (case openWalletReply env of
             Raised m \<Rightarrow> (XmrWalletRpc ''open_wallet'' # xmr_closeWallet env, Rejected m)
           | ErrorReply e \<Rightarrow>
               (XmrWalletRpc ''open_wallet'' # xmr_closeWallet env,
                Rejected (''Failed to open wallet: '' @ walletName))
           | Result v \<Rightarrow>
               (let effs = [XmrWalletRpc ''open_wallet'',
                            XmrTransferRpc destinationAddress (xmrToAtomic amountXMR)]
                in case transferReply env of
                     Raised m \<Rightarrow> (effs @ xmr_closeWallet env, Rejected m)
                   | ErrorReply e \<Rightarrow>
                       (effs @ xmr_closeWallet env,
                        Rejected (''Failed to send transaction: '' @ e))
                   | Result tx_hash \<Rightarrow>
                       if tx_hash \<noteq> [] then (effs @ xmr_closeWallet env, Resolved tx_hash)
                       else (effs @ xmr_closeWallet env,
                             Rejected ''Failed to send transaction: ''))))"

section \<open>Deposit monitors\<close>

record MonitoredWallet =
  mw_id :: string
  mw_userId :: string
  mw_wallet :: Wallet

record XmrTransferInfo =
  xfer_amount :: nat
  xfer_fee :: nat

text \<open>
  What \<open>storeAndBroadcastTransaction\<close> did: stored and broadcast, raised before writing
  anything, or raised after the row was written.
\<close>

datatype StoreOutcome = Stored | RaisedBeforeStore string | RaisedAfterStore string

text \<open>
  Modelled from the spec: \<open>storeAndBroadcastTransaction\<close> (\<open>@b/utils/eco/redis/deposit\<close>) is
  not part of the sources. The spec has the monitor "write a new COMPLETED deposit
  TransactionRecord and broadcast it", the chain-native transaction id, the second
  argument of the call, being its referenceId. The amounts are those of \<open>txData\<close>;
  \<open>rowId\<close> is the primary key the store gives the new row. The function looks nothing up:
  the de-duplication is the caller's, as the spec describes it.
\<close>

definition depositRow ::
  "string \<Rightarrow> MonitoredWallet \<Rightarrow> string \<Rightarrow> string \<Rightarrow> string \<Rightarrow> rat \<Rightarrow> rat option
     \<Rightarrow> TransactionRecord" where
  "depositRow rowId w chain transactionHash address amt txFee =
     \<lparr>txId = rowId, walletId = mw_id w, userId = mw_userId w, txType = DEPOSIT,
      amount = amt, fee = txFee, status = COMPLETED, referenceId = Some transactionHash,
      metadata = MetaObj (Some chain) address, description = None,
      wallet = Some (mw_wallet w)\<rparr>"

definition storeAndBroadcastTransaction ::
  "StoreOutcome \<Rightarrow> string \<Rightarrow> Db \<Rightarrow> MonitoredWallet \<Rightarrow> string \<Rightarrow> string \<Rightarrow> string \<Rightarrow> rat
     \<Rightarrow> rat option \<Rightarrow> Db \<times> Effect list \<times> (string + unit)" where
  "storeAndBroadcastTransaction outcome rowId db w chain transactionHash address amt txFee =
     (case outcome of
        RaisedBeforeStore m \<Rightarrow> (db, [], Inl m)
      | RaisedAfterStore m \<Rightarrow>
          (db @ [depositRow rowId w chain transactionHash address amt txFee], [], Inl m)
      | Stored \<Rightarrow>
          (db @ [depositRow rowId w chain transactionHash address amt txFee],
           [StoreAndBroadcast (mw_id w) transactionHash amt txFee], Inr ()))"

subsection \<open>Monero\<close>

text \<open>
  \<open>walletAddress\<close> is \<open>addresses["XMR"].address\<close> of the wallet's address column, or the
  message of the exception that parsing or the lookup raised.
\<close>

record MonitorEnv =
  getTransferByTxid :: "XmrTransferInfo option Rpc"
  walletAddress :: "string + string"
  storeOutcome :: StoreOutcome
  newId :: string

text \<open>
  \<open>processMoneroTransaction\<close> (lines 1333-1423) is an asynchronous function with three
  awaits: the table lookup (line 1348), the wallet RPC (line 1364) and the store (line
  1405). A call runs from one await to the next without interruption, and other tasks
  run while it waits. \<open>DepositTask\<close> says where a call stands: not yet started, waiting
  for one of the three replies (the store with the address and the two \<open>toFixed(8)\<close>
  numerals of \<open>txData\<close>), or returned.
\<close>

datatype DepositTask =
    TaskStart
  | AwaitFindOne
  | AwaitGetTransfer
  | AwaitStore string int int
  | TaskReturned bool

text \<open>
  One uninterrupted stretch of a call. The state shared by all calls is the static
  \<open>processedTransactions\<close> set and the table; the awaited operation acts on the table at
  the moment the call resumes. Every exception is caught and gives \<open>false\<close>.
\<close>

definition processMoneroTransaction_step ::
  "MonitorEnv \<Rightarrow> string \<Rightarrow> MonitoredWallet \<Rightarrow> (string set \<times> Db) \<times> DepositTask
     \<Rightarrow> ((string set \<times> Db) \<times> DepositTask) \<times> Effect list" where
  "processMoneroTransaction_step env transactionHash w c =
     (case c of ((processed, db), pos) \<Rightarrow>
        (case pos of
           TaskStart \<Rightarrow>
             if transactionHash \<in> processed then (((processed, db), TaskReturned False), [])
             else (((processed, db), AwaitFindOne), [])
         | AwaitFindOne \<Rightarrow>
             (case findOne (\<lambda>r. referenceId r = Some transactionHash \<and> status r = COMPLETED) db of
                Some existing \<Rightarrow>
                  (((insert transactionHash processed, db), TaskReturned False), [])
              | None \<Rightarrow>
                  (((processed, db), AwaitGetTransfer), [XmrWalletRpc ''get_transfer_by_txid'']))
         | AwaitGetTransfer \<Rightarrow>
             (case getTransferByTxid env of
                Raised m \<Rightarrow> (((processed, db), TaskReturned False), [])
              | ErrorReply e \<Rightarrow> (((processed, db), TaskReturned False), [])
              | Result None \<Rightarrow> (((processed, db), TaskReturned False), [])
              | Result (Some transfer) \<Rightarrow>
                 (case walletAddress env of
                    Inl m \<Rightarrow> (((processed, db), TaskReturned False), [])
                  | Inr moneroAddress \<Rightarrow>
                     (case atomicToFixed8 (xfer_amount transfer) of
                        None \<Rightarrow> (((processed, db), TaskReturned False), [])
                      | Some amt8 \<Rightarrow>
                         (case atomicToFixed8 (xfer_fee transfer) of
                            None \<Rightarrow> (((processed, db), TaskReturned False), [])
                          | Some fee8 \<Rightarrow>
                              (((processed, db), AwaitStore moneroAddress amt8 fee8), [])))))
         | AwaitStore moneroAddress amt8 fee8 \<Rightarrow>
             (case storeAndBroadcastTransaction (storeOutcome env) (newId env) db w ''XMR''
                     transactionHash moneroAddress (of_int amt8 / 10 ^ 8)
                     (Some (of_int fee8 / 10 ^ 8)) of
                (db1, effs, Inl m) \<Rightarrow> (((processed, db1), TaskReturned False), effs)
              | (db1, effs, Inr u) \<Rightarrow>
                  (((insert transactionHash processed, db1), TaskReturned True), effs))
         | TaskReturned b \<Rightarrow> (((processed, db), TaskReturned b), [])))"

text \<open>
  A call of \<open>processMoneroTransaction\<close> in progress: its arguments, the replies it will
  get, and where it stands.
\<close>

record MoneroCall =
  callEnv :: MonitorEnv
  callHash :: string
  callWallet :: MonitoredWallet
  callAt :: DepositTask

text \<open>
  Two calls in progress on one event loop. A schedule says which of the two runs its
  next stretch; the result is the shared state, the two calls, and the external calls
  made, in order.
\<close>

datatype Turn = First | Second

fun interleave ::
  "Turn list \<Rightarrow> (string set \<times> Db) \<times> MoneroCall \<times> MoneroCall
     \<Rightarrow> ((string set \<times> Db) \<times> MoneroCall \<times> MoneroCall) \<times> Effect list" where
  "interleave [] c = (c, [])"
| "interleave (First # ts) (s, a, b) =
     (case processMoneroTransaction_step (callEnv a) (callHash a) (callWallet a) (s, callAt a) of
        ((s1, pos1), effs1) \<Rightarrow>
          (case interleave ts (s1, a\<lparr>callAt := pos1\<rparr>, b) of
             (c, effs2) \<Rightarrow> (c, effs1 @ effs2)))"
| "interleave (Second # ts) (s, a, b) =
     (case processMoneroTransaction_step (callEnv b) (callHash b) (callWallet b) (s, callAt b) of
        ((s1, pos1), effs1) \<Rightarrow>
          (case interleave ts (s1, a, b\<lparr>callAt := pos1\<rparr>) of
             (c, effs2) \<Rightarrow> (c, effs1 @ effs2)))"

text \<open>
  \<open>monitorMoneroDeposits\<close> and \<open>processMonitoredWallets\<close> (lines 1208-1328): adding a
  wallet that is not yet monitored starts, without awaiting it, one
  \<open>checkWalletForDeposits\<close> poll loop for every monitored wallet, the ones whose loop is
  already running included. \<open>pollLoops\<close> lists the wallet of every loop started; a loop
  polls at once and then re-arms itself every minute while its wallet is monitored.
\<close>

record MoneroMonitor =
  monitoredWallets :: "string list"
  pollLoops :: "string list"

definition monitorMoneroDeposits :: "MoneroMonitor \<Rightarrow> string \<Rightarrow> MoneroMonitor" where
  "monitorMoneroDeposits m wid =
     (if wid \<in> set (monitoredWallets m) then m
      else \<lparr>monitoredWallets = monitoredWallets m @ [wid],
            pollLoops = pollLoops m @ (monitoredWallets m @ [wid])\<rparr>)"

subsection \<open>Solana\<close>

text \<open>
  The transaction \<open>getTransaction\<close> returns to the deposit monitor: whether it has
  \<open>meta\<close>, and the balance of the watched address before and after it (\<open>None\<close> when the
  address is not among its account keys).
\<close>

record SolDeposit =
  sd_hasMeta :: bool
  sd_balances :: "(int \<times> int) option"

text \<open>\<open>sol_getTransactionAt env k\<close> is the outcome of the poll made after \<open>k\<close> retries.\<close>

record SolMonitorEnv =
  sol_getTransactionAt :: "nat \<Rightarrow> string + SolDeposit option"
  sol_storeOutcome :: StoreOutcome
  sol_newId :: string

text \<open>
  The retry loop of \<open>trackTransactionSignature\<close> (lines 511-536): up to \<open>maxRetries = 30\<close>
  polls, an exception counting as a miss. The first argument is the number of polls
  left.
\<close>

fun fetchTransaction ::
  "nat \<Rightarrow> (nat \<Rightarrow> string + SolDeposit option) \<Rightarrow> nat \<Rightarrow> Effect list \<times> SolDeposit option" where
  "fetchTransaction 0 g retries = ([], None)"
| "fetchTransaction (Suc left) g retries =
     (case g retries of
        Inr (Some t) \<Rightarrow> ([SolRpc ''getTransaction''], Some t)
      | _ \<Rightarrow> (case fetchTransaction left g (Suc retries) of
                (effs, r) \<Rightarrow> (SolRpc ''getTransaction'' # effs, r)))"

text \<open>
  \<open>trackTransactionSignature\<close> (lines 498-617), which the log subscription of
  \<open>monitorSolanaDeposits\<close> calls for every signature it is notified of. The amount is
  \<open>balanceDifference / 1e9\<close>; \<open>txDetails\<close> has no fee. Neither the table nor any set of
  processed signatures is consulted before the store, and the same holds of
  \<open>processSolanaTransaction\<close> (lines 619-715). Every exception is caught.
\<close>

definition trackTransactionSignature ::
  "SolMonitorEnv \<Rightarrow> Db \<Rightarrow> string \<Rightarrow> MonitoredWallet \<Rightarrow> string \<Rightarrow> Db \<times> Effect list" where
  "trackTransactionSignature env db signature w address =
     (case fetchTransaction 30 (sol_getTransactionAt env) 0 of
        (effs, None) \<Rightarrow> (db, effs)
      | (effs, Some t) \<Rightarrow>
          if \<not> sd_hasMeta t then (db, effs)
          else (case sd_balances t of
                  None \<Rightarrow> (db, effs)
                | Some (preBalance, postBalance) \<Rightarrow>
                    if postBalance - preBalance \<le> 0 then (db, effs)
                    else (case storeAndBroadcastTransaction (sol_storeOutcome env)
                                 (sol_newId env) db w ''SOL'' signature address
                                 (fdiv (roundToDouble (of_int (postBalance - preBalance)))
                                    (10 ^ 9)) None of
                            (db1, effs1, r) \<Rightarrow> (db1, effs @ effs1))))"

section \<open>Withdrawal queue\<close>

text \<open>
  The service singletons as \<open>getInstance\<close> returns them once constructed, each with the
  liveness flag its startup probe left.
\<close>

record Services =
  solana :: SolanaService
  monero :: MoneroService

text \<open>
  Outcomes of the calls one run of the queue makes besides the table: the chain
  services' environments, the handler of a chain whose service is outside the sources,
  the two lookups before the confirmation e-mail (\<open>models.user.findOne\<close>,
  \<open>models.wallet.findOne\<close>), and the calls that may raise.
\<close>

record Env =
  solEnv :: SolEnv
  xmrEnv :: XmrEnv
  externalBackend :: "string + string"
  userFound :: bool
  userWalletFound :: bool
  confirmationEmail :: "string option"
  adminProfitCreate :: "string option"
  refundUser :: "string option"
  failedEmail :: "string option"
  handleNotification :: "string option"

text \<open>
  Modelled from the spec: \<open>handleUTXOWithdrawal\<close>, \<open>handleTronWithdrawal\<close> and
  \<open>handleEvmWithdrawal\<close> are not part of the sources. The spec gives every backend the
  shape "\<open>transfer(walletId, destination, amount) -> referenceId\<close>, failing with a
  BackendError", a success leaving the record COMPLETED with that referenceId.
\<close>

definition externalWithdrawal ::
  "string + string \<Rightarrow> Db \<Rightarrow> string \<Rightarrow> string \<Rightarrow> string \<Rightarrow> rat \<Rightarrow> string
     \<Rightarrow> Db \<times> Effect list \<times> (string + unit)" where
  "externalWithdrawal outcome db chain transactionId wid amt toAddress =
     (case outcome of
        Inl m \<Rightarrow> (db, [ExternalTransfer chain transactionId wid amt toAddress], Inl m)
      | Inr ref \<Rightarrow>
          (markCompleted transactionId ref db,
           [ExternalTransfer chain transactionId wid amt toAddress], Inr ()))"

text \<open>The dispatch by chain (withdrawalQueue.ts, lines 105-151).\<close>

definition dispatch ::
  "Services \<Rightarrow> Env \<Rightarrow> Db \<Rightarrow> TransactionRecord \<Rightarrow> string \<Rightarrow> string \<Rightarrow> string
     \<Rightarrow> Db \<times> Effect list \<times> (string + unit)" where
  "dispatch svc env db tx transactionId chain toAddress =
     (if chain \<in> set [''BTC'', ''LTC'', ''DOGE'', ''DASH''] then
        externalWithdrawal (externalBackend env) db chain transactionId (walletId tx)
          (amount tx) toAddress
      else if chain = ''SOL'' then
        handleSolanaWithdrawal (solana svc) (solEnv env) db transactionId (walletId tx)
          (amount tx) toAddress
      else if chain = ''TRON'' then
        externalWithdrawal (externalBackend env) db chain transactionId (walletId tx)
          (amount tx) toAddress
      else if chain = ''XMR'' then
        handleMoneroWithdrawal (monero svc) (xmrEnv env) db transactionId (walletId tx)
          (amount tx) toAddress
      else
        externalWithdrawal (externalBackend env) db chain transactionId (walletId tx)
          (amount tx) toAddress)"

text \<open>
  \<open>typeof metadata === "string" ? JSON.parse(metadata) : metadata\<close>: an exception, null,
  or the object's \<open>chain\<close> and \<open>toAddress\<close>.
\<close>

definition parseMetadata :: "Metadata \<Rightarrow> string + (string option \<times> string) option" where
  "parseMetadata m =
     (case m of
        MetaInvalidJson e \<Rightarrow> Inl e
      | MetaNull \<Rightarrow> Inr None
      | MetaObj c a \<Rightarrow> Inr (Some (c, a)))"

text \<open>
  After the handler returned (lines 153-192): the confirmation e-mail, then the
  admin-profit row when \<open>typeof fee === "number" && fee > 0\<close>. \<open>tx\<close> is the row as
  loaded at the start of the run.
\<close>

definition afterTransfer ::
  "Env \<Rightarrow> TransactionRecord \<Rightarrow> Wallet \<Rightarrow> string \<Rightarrow> string \<Rightarrow> Effect list \<times> (string + unit)" where
  "afterTransfer env tx w chain toAddress =
     (let mail =
            (if userFound env \<and> userWalletFound env then
               (case confirmationEmail env of
                  Some m \<Rightarrow> Inl m
                | None \<Rightarrow>
                    Inr [ConfirmationEmail (userId tx)
                           (case referenceId tx of
                              None \<Rightarrow> txId tx
                            | Some ref \<Rightarrow> if ref = [] then txId tx else ref)
                           toAddress chain])
             else Inr [])
      in case mail of
           Inl m \<Rightarrow> ([], Inl m)
         | Inr sent \<Rightarrow>
             (case fee tx of
                None \<Rightarrow> (sent, Inr ())
              | Some f \<Rightarrow>
                  if f > 0 then
                    (case adminProfitCreate env of
                       Some m \<Rightarrow> (sent, Inl m)
                     | None \<Rightarrow> (sent @ [AdminProfit f (currency w) chain (txId tx)], Inr ()))
                  else (sent, Inr ())))"

text \<open>The \<open>try\<close> block of \<open>processNext\<close> for the popped id (lines 49-192).\<close>

definition processNext_try ::
  "Services \<Rightarrow> Env \<Rightarrow> Db \<Rightarrow> string \<Rightarrow> Db \<times> Effect list \<times> (string + unit)" where
  "processNext_try svc env db transactionId =
     (case findEcoTransaction transactionId db of
        None \<Rightarrow> (db, [], Inr ())
      | Some tx \<Rightarrow>
         (case wallet tx of
            None \<Rightarrow> (db, [], Inr ())
          | Some w \<Rightarrow>
             (case markProcessing transactionId db of
                (db1, updatedCount) \<Rightarrow>
                  if updatedCount = 0 then (db1, [], Inr ())
                  else
                    (case parseMetadata (metadata tx) of
                       Inl m \<Rightarrow> (db1, [], Inl m)
                     | Inr None \<Rightarrow>
                         (db1, [], Inl ''Invalid or missing chain in transaction metadata'')
                     | Inr (Some (None, toAddress)) \<Rightarrow>
                         (db1, [], Inl ''Invalid or missing chain in transaction metadata'')
                     | Inr (Some (Some chain, toAddress)) \<Rightarrow>
                         if chain = [] then
                           (db1, [], Inl ''Invalid or missing chain in transaction metadata'')
                         else
                           (case dispatch svc env db1 tx transactionId chain toAddress of
                              (db2, effs, Inl m) \<Rightarrow> (db2, effs, Inl m)
                            | (db2, effs, Inr u) \<Rightarrow>
                                (case afterTransfer env tx w chain toAddress of
                                   (effs2, res) \<Rightarrow> (db2, effs @ effs2, res)))))))"

text \<open>
  The \<open>catch\<close> block (lines 193-251), entered with \<open>error.message = msg\<close>. Nothing in it
  is guarded: an exception raised here leaves \<open>processNext\<close> through \<open>finally\<close>. The
  third component is that exception, if any.
\<close>

definition processNext_catch ::
  "Env \<Rightarrow> Db \<Rightarrow> string \<Rightarrow> string \<Rightarrow> Db \<times> Effect list \<times> string option" where
  "processNext_catch env db transactionId msg =
     (let db1 = markFailed transactionId (''Transaction failed: '' @ msg) db
      in case findEcoTransaction transactionId db1 of
           None \<Rightarrow> (db1, [], None)
         | Some tx \<Rightarrow>
            (case wallet tx of
               None \<Rightarrow> (db1, [], None)
             | Some w \<Rightarrow>
                (case refundUser env of
                   Some m \<Rightarrow> (db1, [Refund tx], Some m)
                 | None \<Rightarrow>
                    (let mail =
                           (if userFound env then
                              (case parseMetadata (metadata tx) of
                                 Inl m \<Rightarrow> Inl m
                               | Inr None \<Rightarrow>
                                   Inl ''Cannot read properties of null (reading 'toAddress')''
                               | Inr (Some (c, toAddress)) \<Rightarrow>
                                   (case failedEmail env of
                                      Some m \<Rightarrow> Inl m
                                    | None \<Rightarrow>
                                        Inr [FailedEmail (userId tx) (txId tx) toAddress msg]))
                            else Inr [])
                     in case mail of
                          Inl m \<Rightarrow> (db1, [Refund tx], Some m)
                        | Inr sent \<Rightarrow>
                           (case handleNotification env of
                              Some m \<Rightarrow> (db1, Refund tx # sent, Some m)
                            | None \<Rightarrow>
                                (db1,
                                 Refund tx # sent @
                                   [Notification (userId tx) ''Withdrawal Failed''],
                                 None))))))"

text \<open>\<open>try\<close> and \<open>catch\<close> together: one item's processing, without the queue's own state.\<close>

definition processItem ::
  "Services \<Rightarrow> Env \<Rightarrow> Db \<Rightarrow> string \<Rightarrow> Db \<times> Effect list \<times> string option" where
  "processItem svc env db transactionId =
     (case processNext_try svc env db transactionId of
        (db1, effs, Inr u) \<Rightarrow> (db1, effs, None)
      | (db1, effs, Inl msg) \<Rightarrow>
          (case processNext_catch env db1 transactionId msg of
             (db2, effs2, escaped) \<Rightarrow> (db2, effs @ effs2, escaped)))"

text \<open>The queue's in-memory fields.\<close>

record QueueState =
  queue :: "string list"
  isProcessing :: bool
  processingTransactions :: "string set"

text \<open>
  The synchronous prefix of \<open>processNext\<close>, up to its first \<open>await\<close> (lines 41-50 and
  258-260): the id whose processing starts, if any. An empty id is falsy: it is popped
  and dropped.
\<close>

definition processNext_start :: "QueueState \<Rightarrow> QueueState \<times> string option" where
  "processNext_start st =
     (if isProcessing st then (st, None)
      else case queue st of
        [] \<Rightarrow> (st, None)
      | transactionId # rest \<Rightarrow>
          if transactionId \<noteq> [] then
            (st\<lparr>isProcessing := True, queue := rest,
                processingTransactions := insert transactionId (processingTransactions st)\<rparr>,
             Some transactionId)
          else (st\<lparr>isProcessing := False, queue := rest\<rparr>, None))"

text \<open>\<open>addTransaction\<close> (lines 29-38), with the synchronous part of the processing it starts.\<close>

definition addTransaction :: "QueueState \<Rightarrow> string \<Rightarrow> QueueState \<times> string option" where
  "addTransaction st transactionId =
     (if transactionId \<in> processingTransactions st then (st, None)
      else if transactionId \<notin> set (queue st) then
        processNext_start (st\<lparr>queue := queue st @ [transactionId]\<rparr>)
      else (st, None))"

text \<open>The \<open>finally\<close> block (lines 252-257), which starts the next item.\<close>

definition processNext_finally :: "QueueState \<Rightarrow> string \<Rightarrow> QueueState \<times> string option" where
  "processNext_finally st transactionId =
     processNext_start
       (st\<lparr>processingTransactions := processingTransactions st - {transactionId},
           isProcessing := False\<rparr>)"

text \<open>
  The asynchronous part of \<open>processNext\<close> for a started id: the item's processing, then
  \<open>finally\<close>. The last component is the id whose processing starts next.
\<close>

definition processNext_async ::
  "Services \<Rightarrow> Env \<Rightarrow> QueueState \<times> Db \<Rightarrow> string
     \<Rightarrow> (QueueState \<times> Db) \<times> Effect list \<times> string option \<times> string option" where
  "processNext_async svc env s transactionId =
     (case processItem svc env (snd s) transactionId of
        (db1, effs, escaped) \<Rightarrow>
          (case processNext_finally (fst s) transactionId of
             (st1, next) \<Rightarrow> ((st1, db1), effs, escaped, next)))"

section \<open>Interleavings of the table's writes\<close>

text \<open>
  Every write the queue and the two services make to an existing row is one of three
  statements, each atomic in the store. Concurrent executions, of this process or of
  another one sharing the store, interleave them in some order.
\<close>

datatype Write = Claim string | Complete string string | Fail string string

fun applyWrite :: "Write \<Rightarrow> Db \<Rightarrow> Db \<times> nat" where
  "applyWrite (Claim i) db = markProcessing i db"
| "applyWrite (Complete i ref) db = (markCompleted i ref db, length (filter (\<lambda>r. txId r = i) db))"
| "applyWrite (Fail i desc) db = (markFailed i desc db, length (filter (\<lambda>r. txId r = i) db))"

text \<open>How many of the claims of id \<open>i\<close> in an interleaving updated a row.\<close>

fun claimsWon :: "string \<Rightarrow> Write list \<Rightarrow> Db \<Rightarrow> nat" where
  "claimsWon i [] db = 0"
| "claimsWon i (w # ws) db =
     (case applyWrite w db of
        (db1, n) \<Rightarrow> (if w = Claim i \<and> n \<noteq> 0 then 1 else 0) + claimsWon i ws db1)"

text \<open>
  Replays: the same or other ids processed again, run after run. \<open>claimed\<close> tells whether
  a run of id \<open>i\<close> wins the conditional update; \<open>runsClaimed\<close> counts the runs of a
  sequence that do.
\<close>

definition claimed :: "Db \<Rightarrow> string \<Rightarrow> bool" where
  "claimed db i =
     (case findEcoTransaction i db of
        None \<Rightarrow> False
      | Some tx \<Rightarrow> (case wallet tx of None \<Rightarrow> False | Some w \<Rightarrow> snd (markProcessing i db) \<noteq> 0))"

fun runsClaimed :: "string \<Rightarrow> (Services \<times> Env \<times> string) list \<Rightarrow> Db \<Rightarrow> nat" where
  "runsClaimed i [] db = 0"
| "runsClaimed i ((svc, env, j) # rs) db =
     (if j = i \<and> claimed db i then 1 else 0) + runsClaimed i rs (fst (processItem svc env db j))"

section \<open>Properties of rows and of effect lists\<close>

text \<open>The place of a status on the path PENDING, PROCESSING, then COMPLETED or FAILED.\<close>

fun rank :: "Status \<Rightarrow> nat" where
  "rank PENDING = 0"
| "rank PROCESSING = 1"
| "rank COMPLETED = 2"
| "rank FAILED = 2"

text \<open>
  A row and its later version: the same row (id, owner, wallet, type, amount, fee,
  metadata), with a status at the same place on the path or further along it.
\<close>

definition advances :: "TransactionRecord \<Rightarrow> TransactionRecord \<Rightarrow> bool" where
  "advances r r' =
     (txId r' = txId r \<and> walletId r' = walletId r \<and> userId r' = userId r \<and>
      txType r' = txType r \<and> amount r' = amount r \<and> fee r' = fee r \<and>
      metadata r' = metadata r \<and> wallet r' = wallet r \<and>
      rank (status r) \<le> rank (status r'))"

fun isRefund :: "Effect \<Rightarrow> bool" where
  "isRefund (Refund tx) = True"
| "isRefund e = False"

fun isAdminProfit :: "Effect \<Rightarrow> bool" where
  "isAdminProfit (AdminProfit a c ch i) = True"
| "isAdminProfit e = False"

text \<open>The calls a chain handler makes: chain RPCs and console messages.\<close>

fun isChainCall :: "Effect \<Rightarrow> bool" where
  "isChainCall (SolRpc m) = True"
| "isChainCall (SolSendRawTransaction w r n) = True"
| "isChainCall (XmrWalletRpc m) = True"
| "isChainCall (XmrTransferRpc a n) = True"
| "isChainCall (ExternalTransfer c i w a t) = True"
| "isChainCall (Log m) = True"
| "isChainCall e = False"

section \<open>Example inputs\<close>

text \<open>
  A pending SOL withdrawal of 1 SOL with a fee of 2.5, on an ECO wallet; a Solana
  environment in which the broadcast returns \<open>Sig1\<close>, the confirmation wait times out and
  the re-queried transaction is final without error; a Monero wallet RPC that accepts a
  transfer.
\<close>

definition ex_wallet :: Wallet where
  "ex_wallet = \<lparr>walletType = ''ECO'', currency = ''SOL''\<rparr>"

definition ex_tx :: TransactionRecord where
  "ex_tx = \<lparr>txId = ''tx1'', walletId = ''w1'', userId = ''u1'', txType = WITHDRAWAL,
            amount = 1, fee = Some (5 / 2), status = PENDING, referenceId = None,
            metadata = MetaObj (Some ''SOL'') ''Addr1'', description = None,
            wallet = Some ex_wallet\<rparr>"

definition ex_solEnv :: SolEnv where
  "ex_solEnv = \<lparr>validAddress = True, walletDataFound = True, decryptKey = None,
                latestBlockhash = None, sendRawTransaction = Inr ''Sig1'',
                confirmTransaction = Some ''timeout'',
                getTransaction = Inr (Some \<lparr>txMeta = Some \<lparr>metaErr = None\<rparr>\<rparr>)\<rparr>"

definition ex_xmrEnv :: XmrEnv where
  "ex_xmrEnv = \<lparr>openWalletReply = Result (), transferReply = Result ''Hash1'',
                closeWalletReply = Result ()\<rparr>"

text \<open>
  A monitored XMR wallet and a wallet RPC that reports an inbound transfer of 1500000
  atomic units with a fee of 15000 atomic units, stored under the new primary key \<open>d1\<close>;
  a call of \<open>processMoneroTransaction\<close> for the transaction id \<open>h1\<close> on that wallet, about
  to start.
\<close>

definition ex_mw :: MonitoredWallet where
  "ex_mw = \<lparr>mw_id = ''w9'', mw_userId = ''u1'',
            mw_wallet = \<lparr>walletType = ''ECO'', currency = ''XMR''\<rparr>\<rparr>"

definition ex_monEnv :: MonitorEnv where
  "ex_monEnv = \<lparr>getTransferByTxid = Result (Some \<lparr>xfer_amount = 1500000, xfer_fee = 15000\<rparr>),
                walletAddress = Inr ''XmrAddr1'', storeOutcome = Stored, newId = ''d1''\<rparr>"

definition ex_call :: MoneroCall where
  "ex_call = \<lparr>callEnv = ex_monEnv, callHash = ''h1'', callWallet = ex_mw, callAt = TaskStart\<rparr>"

text \<open>
  A Solana RPC whose first poll finds the transaction, which moved 2 SOL to the watched
  address.
\<close>

definition ex_solMonEnv :: SolMonitorEnv where
  "ex_solMonEnv =
     \<lparr>sol_getTransactionAt =
        (\<lambda>k. Inr (Some \<lparr>sd_hasMeta = True, sd_balances = Some (0, 2000000000)\<rparr>)),
      sol_storeOutcome = Stored, sol_newId = ''d1''\<rparr>"

text \<open>Both services active; an environment in which every collaborator call succeeds.\<close>

definition ex_svc :: Services where
  "ex_svc = \<lparr>solana = \<lparr>sol_chainActive = True\<rparr>, monero = \<lparr>xmr_chainActive = True\<rparr>\<rparr>"

definition ex_env :: Env where
  "ex_env = \<lparr>solEnv = ex_solEnv, xmrEnv = ex_xmrEnv, externalBackend = Inr ''Ref1'',
             userFound = True, userWalletFound = True, confirmationEmail = None,
             adminProfitCreate = None, refundUser = None, failedEmail = None,
             handleNotification = None\<rparr>"

text \<open>An idle queue with nothing pending.\<close>

definition ex_idle :: QueueState where
  "ex_idle = \<lparr>queue = [], isProcessing = False, processingTransactions = {}\<rparr>"

section \<open>Rounding to a double\<close>

lemma bitLength_bounds:
  "0 < n \<Longrightarrow> 0 < bitLength n \<and> 2 ^ (bitLength n - 1) \<le> n \<and> n < 2 ^ bitLength n"
proof (induction n rule: bitLength.induct)
  case (1 n)
  show ?case
  proof (cases "n = 1")
    case True
    have "bitLength (1::int) = Suc (bitLength 0)" by (subst bitLength.simps) simp
    also have "bitLength (0::int) = 0" by (subst bitLength.simps) simp
    finally show ?thesis using True by simp
  next
    case False
    with "1.prems" have h: "0 < n div 2" by simp
    from "1.prems" have nz: "\<not> n \<le> 0" by simp
    from "1.IH"[OF nz h] have ih: "0 < bitLength (n div 2)"
      "2 ^ (bitLength (n div 2) - 1) \<le> n div 2" "n div 2 < 2 ^ bitLength (n div 2)" by simp_all
    have eq: "bitLength n = Suc (bitLength (n div 2))" using nz by (subst bitLength.simps) simp
    from ih(1) obtain k where k: "bitLength (n div 2) = Suc k" by (cases "bitLength (n div 2)") auto
    have lo: "2 * 2 ^ k \<le> n" using ih(2) k by (simp; linarith?)
    have hi: "n < 2 * 2 ^ Suc k" using ih(3) k by (simp; linarith?)
    show ?thesis using lo hi by (simp add: eq k)
  qed
qed

lemma bitLength_unique:
  assumes "(2::int) ^ k \<le> n" and "n < 2 ^ Suc k"
  shows "bitLength n = Suc k"
proof -
  from assms(1) have pos: "0 < n" by (smt (verit) zero_less_power)
  note b = bitLength_bounds[OF pos]
  have "\<not> bitLength n < Suc k"
  proof
    assume "bitLength n < Suc k"
    then have "bitLength n \<le> k" by simp
    then have "(2::int) ^ bitLength n \<le> 2 ^ k" by (simp add: power_increasing)
    with b assms(1) show False by linarith
  qed
  moreover have "\<not> Suc k < bitLength n"
  proof
    assume "Suc k < bitLength n"
    then have "Suc k \<le> bitLength n - 1" by simp
    then have "(2::int) ^ Suc k \<le> 2 ^ (bitLength n - 1)" by (simp only: power_increasing one_le_numeral)
    with b assms(2) show False by linarith
  qed
  ultimately show ?thesis by simp
qed

lemma ulp_pos: "0 < ulp x"
  by (simp add: ulp_def)

lemma ulp_bounds:
  assumes "1 / 2 ^ 128 \<le> \<bar>x\<bar>"
  shows "ulp x * 2 ^ 52 \<le> \<bar>x\<bar> \<and> \<bar>x\<bar> < ulp x * 2 ^ 53"
proof -
  define m where "m = \<lfloor>\<bar>x\<bar> * 2 ^ 128\<rfloor>"
  have "1 \<le> \<bar>x\<bar> * 2 ^ 128" using assms by (simp add: field_simps)
  then have mpos: "0 < m" unfolding m_def by (simp add: floor_less_iff[symmetric] le_floor_iff)
  note b = bitLength_bounds[OF mpos]
  from b obtain k where k: "bitLength m = Suc k" by (cases "bitLength m") auto
  have lo: "(2::int) ^ k \<le> m" and hi: "m < (2::int) ^ Suc k" using b k by simp_all
  have "(of_int m :: rat) \<le> \<bar>x\<bar> * 2 ^ 128" unfolding m_def by (rule of_int_floor_le)
  moreover have "(2::rat) ^ k \<le> of_int m" using lo by (metis of_int_le_iff of_int_numeral of_int_power)
  ultimately have l: "(2::rat) ^ k \<le> \<bar>x\<bar> * 2 ^ 128" by linarith
  have "\<bar>x\<bar> * 2 ^ 128 < of_int m + 1" unfolding m_def using floor_correct[of "\<bar>x\<bar> * 2 ^ 128"] by simp
  moreover have "m + 1 \<le> 2 ^ Suc k" using hi by simp
  then have "(of_int (m + 1) :: rat) \<le> of_int (2 ^ Suc k)" by (simp only: of_int_le_iff)
  then have "(of_int m :: rat) + 1 \<le> 2 ^ Suc k" by simp
  ultimately have h: "\<bar>x\<bar> * 2 ^ 128 < (2::rat) ^ Suc k" by linarith
  have u: "ulp x = 2 ^ Suc k / 2 ^ 181" unfolding ulp_def m_def[symmetric] k by simp
  have a: "ulp x * 2 ^ 52 = 2 ^ k / 2 ^ 128" unfolding u by simp
  have c: "ulp x * 2 ^ 53 = 2 ^ Suc k / 2 ^ 128" unfolding u by simp
  show ?thesis unfolding a c using l h by (simp add: field_simps)
qed

lemma roundHalfEven_nearest: "\<bar>of_int (roundHalfEven y) - y\<bar> \<le> 1 / 2"
proof -
  have "of_int \<lfloor>y\<rfloor> \<le> y" "y < of_int \<lfloor>y\<rfloor> + 1" using floor_correct[of y] by simp_all
  then show ?thesis by (auto simp: roundHalfEven_def Let_def)
qed

lemma roundToDouble_half_ulp: "\<bar>roundToDouble x - x\<bar> \<le> ulp x / 2"
proof (cases "x = 0")
  case True
  then show ?thesis using ulp_pos[of x] by (simp add: roundToDouble_def)
next
  case False
  define n where "n = roundHalfEven (\<bar>x\<bar> / ulp x)"
  define u where "u = ulp x"
  have up: "0 < u" unfolding u_def by (rule ulp_pos)
  have "\<bar>of_int n - \<bar>x\<bar> / u\<bar> \<le> 1 / 2" unfolding n_def u_def by (rule roundHalfEven_nearest)
  then have "\<bar>of_int n - \<bar>x\<bar> / u\<bar> * u \<le> 1 / 2 * u" using up by (simp add: mult_right_mono)
  moreover have "\<bar>(of_int n - \<bar>x\<bar> / u) * u\<bar> = \<bar>of_int n - \<bar>x\<bar> / u\<bar> * u"
    using up by (simp add: abs_mult)
  moreover have "(of_int n - \<bar>x\<bar> / u) * u = of_int n * u - \<bar>x\<bar>"
    using up by (simp add: field_simps)
  ultimately have m: "\<bar>of_int n * u - \<bar>x\<bar>\<bar> \<le> u / 2" by simp
  have r: "roundToDouble x = sgn x * (of_int n * u)"
    using False by (simp add: roundToDouble_def n_def u_def)
  have "roundToDouble x - x = sgn x * (of_int n * u - \<bar>x\<bar>)"
    unfolding r by (simp add: right_diff_distrib sgn_mult_abs mult_sgn_abs)
  then have "\<bar>roundToDouble x - x\<bar> = \<bar>of_int n * u - \<bar>x\<bar>\<bar>"
    using False by (simp add: abs_mult abs_sgn_eq)
  with m show ?thesis by (simp add: u_def)
qed

lemma roundToDouble_relative:
  assumes "1 / 2 ^ 128 \<le> \<bar>x\<bar>"
  shows "\<bar>roundToDouble x - x\<bar> \<le> \<bar>x\<bar> / 2 ^ 53"
proof -
  have "ulp x * 2 ^ 52 \<le> \<bar>x\<bar>" using ulp_bounds[OF assms] by simp
  then have "ulp x / 2 \<le> \<bar>x\<bar> / 2 ^ 53" by (simp add: field_simps)
  with roundToDouble_half_ulp[of x] show ?thesis by linarith
qed



lemma ulp_eq:
  assumes "2 ^ k / 2 ^ 128 \<le> \<bar>x\<bar>" and "\<bar>x\<bar> < 2 ^ Suc k / 2 ^ 128"
  shows "ulp x = 2 ^ Suc k / 2 ^ 181"
proof -
  define m where "m = \<lfloor>\<bar>x\<bar> * 2 ^ 128\<rfloor>"
  have "(2::rat) ^ k \<le> \<bar>x\<bar> * 2 ^ 128" using assms(1) by (simp add: field_simps)
  then have "of_int (2 ^ k) \<le> \<bar>x\<bar> * 2 ^ 128" by simp
  then have lo: "2 ^ k \<le> m" unfolding m_def by (simp only: le_floor_iff)
  have "\<bar>x\<bar> * 2 ^ 128 < (2::rat) ^ Suc k" using assms(2) by (simp add: field_simps)
  then have "\<bar>x\<bar> * 2 ^ 128 < of_int (2 ^ Suc k)" by simp
  then have hi: "m < 2 ^ Suc k" unfolding m_def by (simp only: floor_less_iff)
  have "bitLength m = Suc k" using lo hi by (rule bitLength_unique)
  then show ?thesis unfolding ulp_def m_def[symmetric] by simp
qed

lemma roundHalfEven_eq:
  assumes "of_int n - 1 / 2 < y" and "y < of_int n + 1 / 2"
  shows "roundHalfEven y = n"
proof (cases "of_int n \<le> y")
  case True
  with assms(2) have "\<lfloor>y\<rfloor> = n" by (simp add: floor_eq_iff)
  with assms(2) show ?thesis by (simp add: roundHalfEven_def Let_def)
next
  case False
  with assms(1) have f: "\<lfloor>y\<rfloor> = n - 1" by (simp add: floor_eq_iff)
  from assms(1) have "\<not> y - of_int (n - 1) < 1 / 2" "1 / 2 < y - of_int (n - 1)" by simp_all
  then show ?thesis unfolding roundHalfEven_def Let_def f by simp
qed

lemma roundHalfEven_int: "roundHalfEven (of_int z) = z"
  by (simp add: roundHalfEven_def)

text \<open>An integer below \<open>2\<^sup>5\<^sup>3\<close> in magnitude is a double.\<close>

lemma roundToDouble_int:
  assumes "\<bar>n\<bar> < 2 ^ 53"
  shows "roundToDouble (of_int n) = of_int n"
proof (cases "n = 0")
  case True
  then show ?thesis by (simp add: roundToDouble_def)
next
  case False
  define x :: rat where "x = of_int n"
  define m where "m = \<lfloor>\<bar>x\<bar> * 2 ^ 128\<rfloor>"
  have ax: "\<bar>x\<bar> = of_int \<bar>n\<bar>" by (simp add: x_def)
  have "(of_int \<bar>n\<bar> :: rat) * 2 ^ 128 = of_int (\<bar>n\<bar> * 2 ^ 128)" by simp
  then have mm: "m = \<bar>n\<bar> * 2 ^ 128" unfolding m_def ax by (simp only: floor_of_int)
  from False have "1 \<le> \<bar>n\<bar>" by simp
  then have mpos: "0 < m" unfolding mm by simp
  note b = bitLength_bounds[OF mpos]
  have "m < 2 ^ 53 * 2 ^ 128" unfolding mm using assms by simp
  then have "m < 2 ^ 181" by simp
  with b have "(2::int) ^ (bitLength m - 1) < 2 ^ 181" by linarith
  then have "bitLength m - 1 < 181" using power_strict_increasing_iff[of "2::int" "bitLength m - 1" 181] by simp
  then have le: "bitLength m \<le> 181" by simp
  define j where "j = 181 - bitLength m"
  have u: "ulp x = 1 / 2 ^ j"
  proof -
    have "(2::rat) ^ 181 = 2 ^ (bitLength m + j)" using le by (simp add: j_def)
    then have e: "(2::rat) ^ 181 = 2 ^ bitLength m * 2 ^ j" by (simp only: power_add)
    show ?thesis unfolding ulp_def m_def[symmetric] e by simp
  qed
  have q: "\<bar>x\<bar> / ulp x = of_int (\<bar>n\<bar> * 2 ^ j)" unfolding u ax by simp
  have "roundToDouble x = sgn x * (of_int (\<bar>n\<bar> * 2 ^ j) * ulp x)"
    using False unfolding roundToDouble_def q roundHalfEven_int by (simp add: x_def)
  also have "of_int (\<bar>n\<bar> * 2 ^ j) * ulp x = \<bar>x\<bar>" unfolding u ax by simp
  also have "sgn x * \<bar>x\<bar> = x" by (simp add: sgn_mult_abs)
  finally show ?thesis by (simp add: x_def)
qed

lemma solToLamports_one: "solToLamports 1 = 1000000000"
  using roundToDouble_int[of 1000000000] by (simp add: solToLamports_def fmul_def jsRound_def floor_eq_iff)

lemma xmrToAtomic_half: "xmrToAtomic (1 / 2) = 500000000000"
  using roundToDouble_int[of 500000000000] by (simp add: xmrToAtomic_def fmul_def jsRound_def floor_eq_iff)


lemma atomicToXmr_bounds:
  assumes "0 < n" and "n < 2 ^ 53"
  shows "of_nat n / 10 ^ 12 - of_nat n / 10 ^ 12 / 2 ^ 53 \<le> atomicToXmr n"
    and "atomicToXmr n \<le> of_nat n / 10 ^ 12 + of_nat n / 10 ^ 12 / 2 ^ 53"
proof -
  have "int n < int (2 ^ 53)" using assms(2) by (simp only: of_nat_less_iff)
  then have "\<bar>int n\<bar> < 2 ^ 53" by simp
  then have i: "roundToDouble (of_nat n) = of_nat n" using roundToDouble_int[of "int n"] by simp
  have "(1::rat) \<le> of_nat n" using assms(1) by simp
  then have "(1::rat) / 10 ^ 12 \<le> of_nat n / 10 ^ 12" by (simp add: divide_right_mono)
  moreover have "(1::rat) / 2 ^ 128 \<le> 1 / 10 ^ 12" by simp
  ultimately have "1 / 2 ^ 128 \<le> \<bar>(of_nat n :: rat) / 10 ^ 12\<bar>" by linarith
  from roundToDouble_relative[OF this]
  have "\<bar>atomicToXmr n - of_nat n / 10 ^ 12\<bar> \<le> of_nat n / 10 ^ 12 / 2 ^ 53"
  proof -
    have a: "\<bar>(10::rat) ^ 12\<bar> = 10 ^ 12" by simp
    assume "\<bar>roundToDouble (rat_of_nat n / 10 ^ 12) - rat_of_nat n / 10 ^ 12\<bar>
      \<le> \<bar>rat_of_nat n / 10 ^ 12\<bar> / 2 ^ 53"
    then show ?thesis by (simp only: atomicToXmr_def fdiv_def i abs_divide abs_of_nat a)
  qed
  then show "of_nat n / 10 ^ 12 - of_nat n / 10 ^ 12 / 2 ^ 53 \<le> atomicToXmr n"
    and "atomicToXmr n \<le> of_nat n / 10 ^ 12 + of_nat n / 10 ^ 12 / 2 ^ 53"
    by linarith+
qed

lemma toFixed8_eq:
  "0 \<le> x \<Longrightarrow> of_int k - 1 / 2 \<le> x * 10 ^ 8 \<Longrightarrow> x * 10 ^ 8 < of_int k + 1 / 2 \<Longrightarrow> toFixed8 x = k"
  by (simp add: toFixed8_def floor_eq_iff)




lemma atomicToFixed8_1500000: "atomicToFixed8 1500000 = Some 150"
proof -
  have lo: "1500000 / 10 ^ 12 - 1500000 / 10 ^ 12 / 2 ^ 53 \<le> atomicToXmr 1500000"
    and hi: "atomicToXmr 1500000 \<le> 1500000 / 10 ^ 12 + 1500000 / 10 ^ 12 / 2 ^ 53"
    using atomicToXmr_bounds[of 1500000] by simp_all
  have "toFixed8 (atomicToXmr 1500000) = 150"
  proof (rule toFixed8_eq)
    show "0 \<le> atomicToXmr 1500000" using lo by simp
    show "of_int 150 - 1 / 2 \<le> atomicToXmr 1500000 * 10 ^ 8" using lo by simp
    show "atomicToXmr 1500000 * 10 ^ 8 < of_int 150 + 1 / 2" using hi by simp
  qed
  then show ?thesis by (simp add: atomicToFixed8_def)
qed

lemma atomicToFixed8_tie: "atomicToFixed8 15000 = Some 1"
proof -
  define x :: rat where "x = 15000 / 10 ^ 12"
  have i: "roundToDouble (of_nat 15000) = of_nat 15000"
    using roundToDouble_int[of 15000] by simp
  have u: "ulp x = 2 ^ 103 / 2 ^ 181" using ulp_eq[of 102 x] by (simp add: x_def)
  have "roundHalfEven (\<bar>x\<bar> / ulp x) = 4533471823554859"
    unfolding u by (rule roundHalfEven_eq) (simp_all add: x_def)
  then have "roundToDouble x = 4533471823554859 * (2 ^ 103 / 2 ^ 181)"
    unfolding roundToDouble_def u by (simp add: x_def)
  then have d: "atomicToXmr 15000 = 4533471823554859 * (2 ^ 103 / 2 ^ 181)"
    unfolding atomicToXmr_def fdiv_def i by (simp add: x_def)
  have "toFixed8 (atomicToXmr 15000) = 1"
    unfolding d by (rule toFixed8_eq) simp_all
  then show ?thesis by (simp add: atomicToFixed8_def)
qed

section \<open>Solana transfer: the outcome comes from the re-queried transaction\<close>



section \<open>Solana withdrawal: what the failure path writes\<close>

text \<open>
  Claim C10. A run of \<open>handleSolanaWithdrawal\<close> that fails with message \<open>m\<close> leaves the
  table as it was except that the rows of the transaction id have status FAILED and
  description "Withdrawal failed: m"; in particular no row's referenceId changes,
  whatever was broadcast before the error. A run that succeeds sets status COMPLETED and
  referenceId, to the signature the broadcast returned, together.
\<close>

theorem handleSolanaWithdrawal_failure_frame:
  "case handleSolanaWithdrawal svc env db i wid amt addr of
     (db', effs, Inl m) \<Rightarrow>
        db' = map (\<lambda>r. if txId r = i
                        then r\<lparr>status := FAILED,
                               description := Some (''Withdrawal failed: '' @ m)\<rparr>
                        else r) db \<and>
        map referenceId db' = map referenceId db
   | (db', effs, Inr u) \<Rightarrow>
        (\<exists>sig. sig \<noteq> [] \<and> sendRawTransaction env = Inr sig \<and>
           db' = map (\<lambda>r. if txId r = i
                           then r\<lparr>status := COMPLETED, referenceId := Some sig\<rparr>
                           else r) db)"
  by (auto simp: handleSolanaWithdrawal_def handleSolanaWithdrawal_try_def transferSol_def
        transferSol_try_def resolveTxResult_def Let_def markFailed_def markCompleted_def
        updateWhere_def
      split: option.splits sum.splits if_splits prod.splits)

theorem handleSolanaWithdrawal_failure_frame_witness:
  "(case handleSolanaWithdrawal \<lparr>sol_chainActive = True\<rparr>
           (ex_solEnv\<lparr>getTransaction := Inr None\<rparr>) [ex_tx] ''tx1'' ''w1'' 1 ''Addr1'' of
      (db', effs, Inl m) \<Rightarrow>
         SolSendRawTransaction ''w1'' ''Addr1'' 1000000000 \<in> set effs \<and>
         map referenceId db' = [None] \<and> map status db' = [FAILED] \<and>
         map description db' =
           [Some ''Withdrawal failed: Failed to transfer SOL: Transaction not found or not confirmed'']
    | (db', effs, Inr u) \<Rightarrow> False)"
  using handleSolanaWithdrawal_failure_frame
          [where svc = "\<lparr>sol_chainActive = True\<rparr>"
             and env = "ex_solEnv\<lparr>getTransaction := Inr None\<rparr>"
             and db = "[ex_tx]" and i = "''tx1''" and wid = "''w1''" and amt = 1
             and addr = "''Addr1''"]
  by (simp add: handleSolanaWithdrawal_def handleSolanaWithdrawal_try_def transferSol_def
        transferSol_try_def resolveTxResult_def Let_def markFailed_def markCompleted_def
        updateWhere_def ex_solEnv_def ex_tx_def solToLamports_one)

section \<open>Monero amounts\<close>










section \<open>Chain liveness\<close>

text \<open>
  Claim C6 does not hold of the withdrawal handlers. With the liveness flag false,
  \<open>ensureChainActive\<close> raises and \<open>transferXMR\<close>, which calls it, makes no RPC; but
  \<open>handleMoneroWithdrawal\<close> and \<open>handleSolanaWithdrawal\<close> never call it: on an inactive
  service they broadcast the transfer and mark the row COMPLETED.
\<close>

theorem inactive_chain_withdrawals_proceed:
  "xmr_ensureChainActive \<lparr>xmr_chainActive = False\<rparr> = Inl ''Chain 'Monero' is not active.'' \<and>
   transferXMR \<lparr>xmr_chainActive = False\<rparr> ex_xmrEnv ''w1'' ''Addr1'' (1 / 2)
     = ([Log ''Error processing Monero wallet operation: Chain 'Monero' is not active.''],
        Unsettled) \<and>
   handleMoneroWithdrawal \<lparr>xmr_chainActive = False\<rparr> ex_xmrEnv
      [ex_tx\<lparr>status := PROCESSING\<rparr>] ''tx1'' ''w1'' (1 / 2) ''Addr1''
     = ([ex_tx\<lparr>status := COMPLETED, referenceId := Some ''Hash1''\<rparr>],
        [XmrWalletRpc ''open_wallet'', XmrTransferRpc ''Addr1'' 500000000000,
         XmrWalletRpc ''close_wallet''],
        Inr ()) \<and>
   sol_ensureChainActive \<lparr>sol_chainActive = False\<rparr>
     = Inl ''Chain 'SOL' is not active in ecosystemBlockchain.'' \<and>
   sol_createWallet \<lparr>sol_chainActive = False\<rparr>
     = Inl ''Chain 'SOL' is not active in ecosystemBlockchain.'' \<and>
   handleSolanaWithdrawal \<lparr>sol_chainActive = False\<rparr> ex_solEnv
      [ex_tx\<lparr>status := PROCESSING\<rparr>] ''tx1'' ''w1'' 1 ''Addr1''
     = ([ex_tx\<lparr>status := COMPLETED, referenceId := Some ''Sig1''\<rparr>],
        [SolRpc ''getLatestBlockhash'', SolSendRawTransaction ''w1'' ''Addr1'' 1000000000,
         SolRpc ''confirmTransaction'', Log ''Transaction confirmation failed: timeout'',
         SolRpc ''getTransaction''],
        Inr ())"
  by (simp add: xmr_ensureChainActive_def sol_ensureChainActive_def sol_createWallet_def
        transferXMR_def handleMoneroWithdrawal_def handleMoneroWithdrawal_try_def
        xmr_openWallet_def xmr_closeWallet_def handleSolanaWithdrawal_def
        handleSolanaWithdrawal_try_def transferSol_def transferSol_try_def
        resolveTxResult_def Let_def markFailed_def markCompleted_def updateWhere_def
        ex_solEnv_def ex_tx_def ex_xmrEnv_def solToLamports_one xmrToAtomic_half)

section \<open>Enqueueing\<close>

lemma processNext_start_keeps:
  "i \<noteq> [] \<Longrightarrow> i \<in> set (queue st) \<or> i \<in> processingTransactions st \<Longrightarrow>
     i \<in> set (queue (fst (processNext_start st))) \<or>
     i \<in> processingTransactions (fst (processNext_start st))"
  by (auto simp: processNext_start_def split: list.splits)

lemma addTransaction_known:
  "i \<in> processingTransactions st \<or> i \<in> set (queue st) \<Longrightarrow> addTransaction st i = (st, None)"
  by (auto simp: addTransaction_def)

text \<open>
  Claim C2. \<open>addTransaction\<close> of an id that is in the in-flight set or in the pending
  list changes nothing and starts nothing. Otherwise the id is appended to the pending
  list and \<open>processNext\<close> is called: while an item is being processed that leaves the id
  queued; on an idle queue the head of the pending list, the new id when nothing else is
  pending, is popped at once, enters the in-flight set, and its processing starts (an
  empty id at the head is popped and dropped, and the queue stays idle). Hence a second
  \<open>addTransaction\<close> of the same non-empty id, right after the first, is a no-op.
\<close>

theorem addTransaction_idempotent:
  "(i \<in> processingTransactions st \<or> i \<in> set (queue st) \<longrightarrow> addTransaction st i = (st, None)) \<and>
   (i \<notin> processingTransactions st \<and> i \<notin> set (queue st) \<longrightarrow>
      addTransaction st i = processNext_start (st\<lparr>queue := queue st @ [i]\<rparr>) \<and>
      (isProcessing st \<longrightarrow> addTransaction st i = (st\<lparr>queue := queue st @ [i]\<rparr>, None)) \<and>
      (\<not> isProcessing st \<and> queue st = [] \<and> i \<noteq> [] \<longrightarrow>
         addTransaction st i =
           (st\<lparr>isProcessing := True, queue := [],
               processingTransactions := insert i (processingTransactions st)\<rparr>, Some i)) \<and>
      (\<not> isProcessing st \<and> hd (queue st @ [i]) \<noteq> [] \<longrightarrow>
         addTransaction st i =
           (st\<lparr>isProcessing := True, queue := tl (queue st @ [i]),
               processingTransactions :=
                 insert (hd (queue st @ [i])) (processingTransactions st)\<rparr>,
            Some (hd (queue st @ [i])))) \<and>
      (\<not> isProcessing st \<and> hd (queue st @ [i]) = [] \<longrightarrow>
         addTransaction st i = (st\<lparr>isProcessing := False, queue := tl (queue st @ [i])\<rparr>, None))) \<and>
   (i \<noteq> [] \<longrightarrow> addTransaction (fst (addTransaction st i)) i = (fst (addTransaction st i), None))"
proof (intro conjI impI)
  assume "i \<in> processingTransactions st \<or> i \<in> set (queue st)"
  then show "addTransaction st i = (st, None)" by (rule addTransaction_known)
next
  assume "i \<notin> processingTransactions st \<and> i \<notin> set (queue st)"
  then show "addTransaction st i = processNext_start (st\<lparr>queue := queue st @ [i]\<rparr>)"
    by (simp add: addTransaction_def)
next
  assume "i \<notin> processingTransactions st \<and> i \<notin> set (queue st)" and "isProcessing st"
  then show "addTransaction st i = (st\<lparr>queue := queue st @ [i]\<rparr>, None)"
    by (simp add: addTransaction_def processNext_start_def)
next
  assume "i \<notin> processingTransactions st \<and> i \<notin> set (queue st)"
    and "\<not> isProcessing st \<and> queue st = [] \<and> i \<noteq> []"
  then show "addTransaction st i =
           (st\<lparr>isProcessing := True, queue := [],
               processingTransactions := insert i (processingTransactions st)\<rparr>, Some i)"
    by (simp add: addTransaction_def processNext_start_def)
next
  assume n: "i \<notin> processingTransactions st \<and> i \<notin> set (queue st)"
    and h: "\<not> isProcessing st \<and> hd (queue st @ [i]) \<noteq> []"
  obtain j rest where q: "queue st @ [i] = j # rest" by (cases "queue st @ [i]") auto
  with h have "j \<noteq> []" by simp
  with n h show "addTransaction st i =
           (st\<lparr>isProcessing := True, queue := tl (queue st @ [i]),
               processingTransactions :=
                 insert (hd (queue st @ [i])) (processingTransactions st)\<rparr>,
            Some (hd (queue st @ [i])))"
    by (simp add: addTransaction_def processNext_start_def q)
next
  assume n: "i \<notin> processingTransactions st \<and> i \<notin> set (queue st)"
    and h: "\<not> isProcessing st \<and> hd (queue st @ [i]) = []"
  obtain j rest where q: "queue st @ [i] = j # rest" by (cases "queue st @ [i]") auto
  with h have "j = []" by simp
  with n h show "addTransaction st i = (st\<lparr>isProcessing := False, queue := tl (queue st @ [i])\<rparr>, None)"
    by (simp add: addTransaction_def processNext_start_def q)
next
  assume ne: "i \<noteq> []"
  let ?st = "fst (addTransaction st i)"
  have "i \<in> processingTransactions ?st \<or> i \<in> set (queue ?st)"
  proof (cases "i \<in> processingTransactions st \<or> i \<in> set (queue st)")
    case True
    then show ?thesis by (simp add: addTransaction_known)
  next
    case False
    then have "?st = fst (processNext_start (st\<lparr>queue := queue st @ [i]\<rparr>))"
      by (simp add: addTransaction_def)
    moreover have "i \<in> set (queue (st\<lparr>queue := queue st @ [i]\<rparr>))" by simp
    ultimately show ?thesis
      using processNext_start_keeps[OF ne, of "st\<lparr>queue := queue st @ [i]\<rparr>"] by auto
  qed
  then show "addTransaction ?st i = (?st, None)" by (rule addTransaction_known)
qed

theorem addTransaction_idempotent_witness:
  "addTransaction ex_idle ''tx1''
     = (\<lparr>queue = [], isProcessing = True, processingTransactions = {''tx1''}\<rparr>, Some ''tx1'') \<and>
   addTransaction \<lparr>queue = [], isProcessing = True, processingTransactions = {''tx1''}\<rparr> ''tx1''
     = (\<lparr>queue = [], isProcessing = True, processingTransactions = {''tx1''}\<rparr>, None) \<and>
   addTransaction \<lparr>queue = [], isProcessing = True, processingTransactions = {''tx1''}\<rparr> ''tx2''
     = (\<lparr>queue = [''tx2''], isProcessing = True, processingTransactions = {''tx1''}\<rparr>, None) \<and>
   addTransaction \<lparr>queue = [''tx2''], isProcessing = True, processingTransactions = {''tx1''}\<rparr>
       ''tx2''
     = (\<lparr>queue = [''tx2''], isProcessing = True, processingTransactions = {''tx1''}\<rparr>, None) \<and>
   addTransaction \<lparr>queue = [''tx2''], isProcessing = False, processingTransactions = {}\<rparr> ''tx3''
     = (\<lparr>queue = [''tx3''], isProcessing = True, processingTransactions = {''tx2''}\<rparr>,
        Some ''tx2'') \<and>
   addTransaction ex_idle [] = (ex_idle, None)"
  using addTransaction_idempotent [of "''tx1''" ex_idle]
    addTransaction_idempotent
      [of "''tx1''" "\<lparr>queue = [], isProcessing = True, processingTransactions = {''tx1''}\<rparr>"]
    addTransaction_idempotent
      [of "''tx2''" "\<lparr>queue = [], isProcessing = True, processingTransactions = {''tx1''}\<rparr>"]
    addTransaction_idempotent
      [of "''tx2''"
          "\<lparr>queue = [''tx2''], isProcessing = True, processingTransactions = {''tx1''}\<rparr>"]
    addTransaction_idempotent
      [of "''tx3''" "\<lparr>queue = [''tx2''], isProcessing = False, processingTransactions = {}\<rparr>"]
    addTransaction_idempotent [of "[]" ex_idle]
  by (simp add: ex_idle_def addTransaction_def processNext_start_def)

section \<open>Rows only advance\<close>

text \<open>
  Every write of the queue and of the services maps the table row by row, and each row
  to a later version of itself (\<open>advances\<close>). The lemmas below establish this for the
  three update statements and lift it through the handlers to a whole run.
\<close>

lemma rank_le_pending: "rank s \<le> rank PENDING \<Longrightarrow> s = PENDING"
  by (cases s) auto

lemma rank_le_2: "rank s \<le> 2"
  by (cases s) auto

lemma advances_refl: "advances r r"
  by (simp add: advances_def)

lemma advances_trans: "advances a b \<Longrightarrow> advances b c \<Longrightarrow> advances a c"
  by (auto simp: advances_def)

lemma all2_advances_refl: "list_all2 advances db db"
  by (simp add: list_all2_refl advances_refl)

lemma all2_advances_trans:
  "list_all2 advances a b \<Longrightarrow> list_all2 advances b c \<Longrightarrow> list_all2 advances a c"
  using list_all2_trans[of advances advances advances a b c] advances_trans by blast

lemma all2_advances_map:
  "(\<And>r. P r \<Longrightarrow> advances r (f r)) \<Longrightarrow> list_all2 advances db (map (\<lambda>r. if P r then f r else r) db)"
  by (induction db) (auto simp: advances_refl)

lemma markProcessing_advances: "list_all2 advances db (fst (markProcessing i db))"
  unfolding markProcessing_def updateWhere_def fst_conv
  by (rule all2_advances_map) (simp add: advances_def)

lemma markCompleted_advances: "list_all2 advances db (markCompleted i ref db)"
  unfolding markCompleted_def updateWhere_def fst_conv
  by (rule all2_advances_map) (simp add: advances_def rank_le_2)

lemma markFailed_advances: "list_all2 advances db (markFailed i d db)"
  unfolding markFailed_def updateWhere_def fst_conv
  by (rule all2_advances_map) (simp add: advances_def rank_le_2)

lemma markProcessing_zero: "snd (markProcessing i db) = 0 \<Longrightarrow> fst (markProcessing i db) = db"
  by (auto simp: markProcessing_def updateWhere_def filter_empty_conv intro: map_idI)

lemma markProcessing_count:
  "(snd (markProcessing i db) \<noteq> 0) = (\<exists>r\<in>set db. txId r = i \<and> status r = PENDING)"
  by (auto simp: markProcessing_def updateWhere_def filter_empty_conv)

lemma markProcessing_twice: "snd (markProcessing i (fst (markProcessing i db))) = 0"
  by (auto simp: markProcessing_def updateWhere_def filter_empty_conv)

lemma advances_keeps_unclaimable:
  "list_all2 advances db db' \<Longrightarrow> snd (markProcessing i db) = 0 \<Longrightarrow> snd (markProcessing i db') = 0"
proof (induction rule: list_all2_induct)
  case Nil
  then show ?case by simp
next
  case (Cons r rs r' rs')
  from Cons.prems have r: "\<not> (txId r = i \<and> status r = PENDING)" and rs: "snd (markProcessing i rs) = 0"
    by (auto simp: markProcessing_def updateWhere_def split: if_splits)
  from Cons.hyps(1) r have "\<not> (txId r' = i \<and> status r' = PENDING)"
    using rank_le_pending[of "status r"] by (auto simp: advances_def)
  moreover from Cons.IH rs have "snd (markProcessing i rs') = 0" .
  ultimately show ?case by (auto simp: markProcessing_def updateWhere_def)
qed

lemma handleSolanaWithdrawal_advances:
  "list_all2 advances db (fst (handleSolanaWithdrawal svc env db i wid amt addr))"
  by (auto simp: handleSolanaWithdrawal_def handleSolanaWithdrawal_try_def
      split: prod.splits sum.splits
      intro: markFailed_advances markCompleted_advances)

lemma handleMoneroWithdrawal_advances:
  "list_all2 advances db (fst (handleMoneroWithdrawal svc env db i wid amt addr))"
  by (auto simp: handleMoneroWithdrawal_def handleMoneroWithdrawal_try_def Let_def
      split: prod.splits sum.splits Rpc.splits
      intro: markFailed_advances markCompleted_advances)

lemma externalWithdrawal_advances:
  "list_all2 advances db (fst (externalWithdrawal out db c i wid amt addr))"
  by (auto simp: externalWithdrawal_def all2_advances_refl split: sum.splits
      intro: markCompleted_advances)

lemma dispatch_advances:
  "list_all2 advances db (fst (dispatch svc env db tx i c addr))"
  by (simp add: dispatch_def handleSolanaWithdrawal_advances handleMoneroWithdrawal_advances
      externalWithdrawal_advances)

lemma dispatch_advances':
  "dispatch svc env db tx i c addr = (db2, effs, res) \<Longrightarrow> list_all2 advances db db2"
  using dispatch_advances[of db svc env tx i c addr] by simp

lemma isEco_wallet: "isEco r \<Longrightarrow> \<exists>w. wallet r = Some w"
  by (simp add: isEco_def split: option.splits)

lemma findEco_wallet:
  "findEcoTransaction i db = Some tx \<Longrightarrow> txId tx = i \<and> (\<exists>w. wallet tx = Some w) \<and> tx \<in> set db"
proof -
  assume "findEcoTransaction i db = Some tx"
  then have "txId tx = i \<and> isEco tx \<and> tx \<in> set db"
    by (auto simp: findEcoTransaction_def findOne_def find_Some_iff)
  then show ?thesis using isEco_wallet by blast
qed

lemma claimed_iff:
  "claimed db i = (\<exists>tx. findEcoTransaction i db = Some tx \<and> snd (markProcessing i db) \<noteq> 0)"
proof (cases "findEcoTransaction i db")
  case None
  then show ?thesis by (simp add: claimed_def)
next
  case (Some tx)
  then obtain w where "wallet tx = Some w" using findEco_wallet by blast
  with Some show ?thesis by (simp add: claimed_def)
qed

lemma processNext_try_unclaimed:
  "\<not> claimed db i \<Longrightarrow> processNext_try svc env db i = (db, [], Inr ())"
  using markProcessing_zero[of i db]
  by (auto simp: claimed_def processNext_try_def split: option.splits prod.splits)

lemma processNext_try_claimed:
  assumes "claimed db i"
  shows "list_all2 advances (fst (markProcessing i db)) (fst (processNext_try svc env db i))"
proof -
  from assms obtain tx w where tx: "findEcoTransaction i db = Some tx" "wallet tx = Some w"
    and n: "snd (markProcessing i db) \<noteq> 0"
    by (auto simp: claimed_def split: option.splits)
  obtain db1 cnt where mp: "markProcessing i db = (db1, cnt)" by (cases "markProcessing i db")
  with n have cnt: "cnt \<noteq> 0" by simp
  show ?thesis
    using tx mp cnt
    by (auto simp: processNext_try_def parseMetadata_def all2_advances_refl
        split: Metadata.splits option.splits prod.splits sum.splits
        dest: dispatch_advances')
qed

lemma processNext_try_advances:
  "list_all2 advances db (fst (processNext_try svc env db i))"
proof (cases "claimed db i")
  case True
  then show ?thesis
    using all2_advances_trans[OF markProcessing_advances processNext_try_claimed] by blast
next
  case False
  then show ?thesis by (simp add: processNext_try_unclaimed all2_advances_refl)
qed

lemma processNext_catch_db:
  "fst (processNext_catch env db i msg) = markFailed i (''Transaction failed: '' @ msg) db"
  by (simp add: processNext_catch_def Let_def split: option.splits sum.splits)


lemma processNext_catch_db':
  "processNext_catch env db i msg = (db', effs, esc) \<Longrightarrow>
     db' = markFailed i (''Transaction failed: '' @ msg) db"
  using processNext_catch_db[of env db i msg] by simp

lemma processItem_db:
  "fst (processItem svc env db i) =
     (case processNext_try svc env db i of
        (db1, effs, Inr u) \<Rightarrow> db1
      | (db1, effs, Inl msg) \<Rightarrow> markFailed i (''Transaction failed: '' @ msg) db1)"
  by (auto simp: processItem_def split: prod.splits sum.splits dest: processNext_catch_db')

lemma processItem_from_try:
  "list_all2 advances (fst (processNext_try svc env db i)) (fst (processItem svc env db i))"
  by (auto simp: processItem_db all2_advances_refl markFailed_advances split: prod.splits sum.splits)

lemma processItem_advances: "list_all2 advances db (fst (processItem svc env db i))"
  using all2_advances_trans[OF processNext_try_advances processItem_from_try] .

lemma processItem_unclaimed: "\<not> claimed db i \<Longrightarrow> processItem svc env db i = (db, [], None)"
  by (simp add: processItem_def processNext_try_unclaimed)

lemma processItem_claimed_unclaimable:
  assumes "claimed db i"
  shows "snd (markProcessing i (fst (processItem svc env db i))) = 0"
proof -
  have "list_all2 advances (fst (markProcessing i db)) (fst (processItem svc env db i))"
    using all2_advances_trans[OF processNext_try_claimed[OF assms] processItem_from_try] .
  then show ?thesis using advances_keeps_unclaimable markProcessing_twice by blast
qed

lemma applyWrite_advances: "list_all2 advances db (fst (applyWrite w db))"
  by (cases w) (simp_all add: markProcessing_advances markCompleted_advances markFailed_advances)

lemma claimsWon_bound:
  "claimsWon i ws db \<le> (if snd (markProcessing i db) = 0 then 0 else 1)"
proof (induction ws arbitrary: db)
  case Nil
  then show ?case by simp
next
  case (Cons w ws)
  obtain db1 n where aw: "applyWrite w db = (db1, n)" by (cases "applyWrite w db")
  have adv: "list_all2 advances db db1" using applyWrite_advances[of db w] aw by simp
  show ?case
  proof (cases "w = Claim i \<and> n \<noteq> 0")
    case True
    then have "db1 = fst (markProcessing i db)" and "snd (markProcessing i db) \<noteq> 0"
      using aw by auto
    then have "snd (markProcessing i db1) = 0" by (simp add: markProcessing_twice)
    then have "claimsWon i ws db1 = 0" using Cons.IH[of db1] by simp
    then show ?thesis using True aw \<open>snd (markProcessing i db) \<noteq> 0\<close> by simp
  next
    case False
    have "claimsWon i ws db1 \<le> (if snd (markProcessing i db1) = 0 then 0 else 1)" by (rule Cons.IH)
    also have "\<dots> \<le> (if snd (markProcessing i db) = 0 then 0 else 1)"
      using advances_keeps_unclaimable[OF adv] by auto
    finally show ?thesis using False aw by auto
  qed
qed

lemma runsClaimed_bound:
  "runsClaimed i rs db \<le> (if snd (markProcessing i db) = 0 then 0 else 1)"
proof (induction rs arbitrary: db)
  case Nil
  then show ?case by simp
next
  case (Cons run rs)
  obtain svc env j where run: "run = (svc, env, j)" by (cases run)
  let ?db1 = "fst (processItem svc env db j)"
  have adv: "list_all2 advances db ?db1" by (rule processItem_advances)
  show ?case
  proof (cases "j = i \<and> claimed db i")
    case True
    then have "snd (markProcessing i ?db1) = 0" by (simp add: processItem_claimed_unclaimable)
    then have "runsClaimed i rs ?db1 = 0" using Cons.IH[of ?db1] by simp
    moreover from True have "snd (markProcessing i db) \<noteq> 0" by (auto simp: claimed_iff)
    ultimately show ?thesis using True run by simp
  next
    case False
    have "runsClaimed i rs ?db1 \<le> (if snd (markProcessing i ?db1) = 0 then 0 else 1)" by (rule Cons.IH)
    also have "\<dots> \<le> (if snd (markProcessing i db) = 0 then 0 else 1)"
      using advances_keeps_unclaimable[OF adv] by auto
    finally show ?thesis using False run by auto
  qed
qed


text \<open>Unfolding a run on a concrete input.\<close>

lemmas eval_defs =
  processItem_def processNext_try_def processNext_catch_def findEcoTransaction_def findOne_def
  isEco_def markProcessing_def markCompleted_def markFailed_def updateWhere_def
  parseMetadata_def dispatch_def afterTransfer_def
  handleSolanaWithdrawal_def handleSolanaWithdrawal_try_def transferSol_def transferSol_try_def
  resolveTxResult_def solToLamports_one Let_def
  ex_tx_def ex_wallet_def ex_env_def ex_svc_def ex_solEnv_def ex_xmrEnv_def

section \<open>Status transitions\<close>




section \<open>The claim of a pending row\<close>

text \<open>
  Claim C1. The conditional update counts a row exactly when the row has the given id
  and status PENDING, and it turns exactly those rows to PROCESSING. When it counts no
  row, the run leaves the table unchanged and makes no external call. After the update,
  the same update counts nothing; more generally, in any interleaving \<open>ws\<close> of the three
  update statements (the atomic steps of concurrent executions) at most one claim of id
  \<open>i\<close> counts a row, and in any sequence \<open>rs\<close> of complete runs (replays of the same or of
  other ids) at most one run of \<open>i\<close> wins the claim.
\<close>

theorem claim_never_wins_twice:
  "(snd (markProcessing i db) \<noteq> 0) = (\<exists>r\<in>set db. txId r = i \<and> status r = PENDING) \<and>
   fst (markProcessing i db) =
     map (\<lambda>r. if txId r = i \<and> status r = PENDING then r\<lparr>status := PROCESSING\<rparr> else r) db \<and>
   (snd (markProcessing i db) = 0 \<longrightarrow> processItem svc env db i = (db, [], None)) \<and>
   snd (markProcessing i (fst (markProcessing i db))) = 0 \<and>
   claimsWon i ws db \<le> 1 \<and>
   runsClaimed i rs db \<le> 1"
proof (intro conjI impI)
  show "(snd (markProcessing i db) \<noteq> 0) = (\<exists>r\<in>set db. txId r = i \<and> status r = PENDING)"
    by (rule markProcessing_count)
  show "fst (markProcessing i db) =
     map (\<lambda>r. if txId r = i \<and> status r = PENDING then r\<lparr>status := PROCESSING\<rparr> else r) db"
    by (simp add: markProcessing_def updateWhere_def)
  show "snd (markProcessing i (fst (markProcessing i db))) = 0" by (rule markProcessing_twice)
  show "claimsWon i ws db \<le> 1" using claimsWon_bound[of i ws db] by (simp split: if_splits)
  show "runsClaimed i rs db \<le> 1" using runsClaimed_bound[of i rs db] by (simp split: if_splits)
next
  assume "snd (markProcessing i db) = 0"
  then have "\<not> claimed db i" by (simp add: claimed_iff)
  then show "processItem svc env db i = (db, [], None)" by (rule processItem_unclaimed)
qed

theorem claim_never_wins_twice_witness:
  "snd (markProcessing ''tx1'' [ex_tx]) = 1 \<and>
   map status (fst (markProcessing ''tx1'' [ex_tx])) = [PROCESSING] \<and>
   snd (markProcessing ''tx1'' [ex_tx\<lparr>status := PROCESSING\<rparr>]) = 0 \<and>
   processItem ex_svc ex_env [ex_tx\<lparr>status := PROCESSING\<rparr>] ''tx1''
     = ([ex_tx\<lparr>status := PROCESSING\<rparr>], [], None) \<and>
   claimsWon ''tx1'' [Claim ''tx1'', Claim ''tx1''] [ex_tx] = 1 \<and>
   runsClaimed ''tx1'' [(ex_svc, ex_env, ''tx1''), (ex_svc, ex_env, ''tx1'')] [ex_tx] = 1"
  using claim_never_wins_twice [of "''tx1''" "[ex_tx\<lparr>status := PROCESSING\<rparr>]" ex_svc ex_env]
    claim_never_wins_twice [of "''tx1''" "[ex_tx]" ex_svc ex_env "[Claim ''tx1'', Claim ''tx1'']"
       "[(ex_svc, ex_env, ''tx1''), (ex_svc, ex_env, ''tx1'')]"]
  by (simp add: eval_defs claimed_def)


section \<open>Effects of a run\<close>

lemma chainCall_not_other: "isChainCall e \<Longrightarrow> \<not> isRefund e \<and> \<not> isAdminProfit e"
  by (cases e) auto

lemma chainCalls_filter:
  "list_all isChainCall effs \<Longrightarrow> filter isRefund effs = [] \<and> filter isAdminProfit effs = []"
  by (auto simp: list_all_iff filter_empty_conv dest: chainCall_not_other)

lemma transferSol_effects: "list_all isChainCall (fst (transferSol env wid rcp n))"
  by (auto simp: transferSol_def transferSol_try_def Let_def
      split: option.splits sum.splits prod.splits)

lemma handleSolanaWithdrawal_effects:
  "list_all isChainCall (fst (snd (handleSolanaWithdrawal svc env db i wid amt addr)))"
  using transferSol_effects[of env wid addr "solToLamports amt"]
  by (auto simp: handleSolanaWithdrawal_def handleSolanaWithdrawal_try_def
      split: sum.splits prod.splits)

lemma handleMoneroWithdrawal_effects:
  "list_all isChainCall (fst (snd (handleMoneroWithdrawal svc env db i wid amt addr)))"
  by (auto simp: handleMoneroWithdrawal_def handleMoneroWithdrawal_try_def xmr_openWallet_def
      xmr_closeWallet_def Let_def split: Rpc.splits sum.splits prod.splits)

lemma externalWithdrawal_effects:
  "list_all isChainCall (fst (snd (externalWithdrawal out db c i wid amt addr)))"
  by (auto simp: externalWithdrawal_def split: sum.splits)

lemma dispatch_effects:
  "dispatch svc env db tx i c addr = (db2, effs, res) \<Longrightarrow> list_all isChainCall effs"
  using handleSolanaWithdrawal_effects[of "solana svc" "solEnv env" db i "walletId tx" "amount tx" addr]
    handleMoneroWithdrawal_effects[of "monero svc" "xmrEnv env" db i "walletId tx" "amount tx" addr]
    externalWithdrawal_effects[of "externalBackend env" db c i "walletId tx" "amount tx" addr]
  by (auto simp: dispatch_def split: if_splits)

lemma findEco_advances:
  "list_all2 advances db db' \<Longrightarrow> findEcoTransaction i db = Some tx \<Longrightarrow>
     \<exists>tx'. findEcoTransaction i db' = Some tx' \<and> advances tx tx'"
proof (induction rule: list_all2_induct)
  case Nil
  then show ?case by (simp add: findEcoTransaction_def findOne_def)
next
  case (Cons r rs r' rs')
  from Cons.hyps(1) have same: "(txId r' = i \<and> isEco r') = (txId r = i \<and> isEco r)"
    by (simp add: advances_def isEco_def)
  show ?case
  proof (cases "txId r = i \<and> isEco r")
    case True
    with Cons.prems have "tx = r" by (simp add: findEcoTransaction_def findOne_def)
    moreover from True same have "findEcoTransaction i (r' # rs') = Some r'"
      by (simp add: findEcoTransaction_def findOne_def)
    ultimately show ?thesis using Cons.hyps(1) by simp
  next
    case False
    with Cons.prems have "findEcoTransaction i rs = Some tx"
      by (simp add: findEcoTransaction_def findOne_def)
    then obtain tx' where "findEcoTransaction i rs' = Some tx'" "advances tx tx'"
      using Cons.IH by blast
    moreover from False same have "\<not> (txId r' = i \<and> isEco r')" by simp
    then have "findEcoTransaction i (r' # rs') = findEcoTransaction i rs'"
      by (auto simp: findEcoTransaction_def findOne_def)
    ultimately show ?thesis by simp
  qed
qed

lemma markFailed_rows:
  assumes "r \<in> set (markFailed i d db)" and "txId r = i"
  shows "status r = FAILED \<and> description r = Some d"
proof -
  from assms(1) have
    "r \<in> (\<lambda>x. if txId x = i then x\<lparr>status := FAILED, description := Some d\<rparr> else x) ` set db"
    by (simp add: markFailed_def updateWhere_def)
  then obtain x where
    x: "r = (if txId x = i then x\<lparr>status := FAILED, description := Some d\<rparr> else x)"
    by (rule imageE)
  show ?thesis
  proof (cases "txId x = i")
    case True
    with x show ?thesis by simp
  next
    case False
    with x assms(2) show ?thesis by simp
  qed
qed

text \<open>The catch block once the failed row is found again.\<close>

lemma processNext_catch_found:
  assumes "findEcoTransaction i (markFailed i (''Transaction failed: '' @ msg) db) = Some tx"
    and "metadata tx = MetaObj c toAddress"
  shows "processNext_catch env db i msg =
     (markFailed i (''Transaction failed: '' @ msg) db,
      (case refundUser env of
         Some m \<Rightarrow> ([Refund tx], Some m)
       | None \<Rightarrow>
          if userFound env then
            (case failedEmail env of
               Some m \<Rightarrow> ([Refund tx], Some m)
             | None \<Rightarrow>
                (case handleNotification env of
                   Some m \<Rightarrow> ([Refund tx, FailedEmail (userId tx) (txId tx) toAddress msg], Some m)
                 | None \<Rightarrow>
                     ([Refund tx, FailedEmail (userId tx) (txId tx) toAddress msg,
                       Notification (userId tx) ''Withdrawal Failed''], None)))
          else
            (case handleNotification env of
               Some m \<Rightarrow> ([Refund tx], Some m)
             | None \<Rightarrow> ([Refund tx, Notification (userId tx) ''Withdrawal Failed''], None))))"
proof -
  obtain w where "wallet tx = Some w" using findEco_wallet[OF assms(1)] by blast
  then show ?thesis using assms
    by (simp add: processNext_catch_def parseMetadata_def Let_def split: option.splits)
qed

lemma processNext_catch_no_profit:
  "filter isAdminProfit (fst (snd (processNext_catch env db i msg))) = []"
  by (auto simp: processNext_catch_def parseMetadata_def Let_def
      split: option.splits sum.splits Metadata.splits)

lemma processNext_try_dispatched:
  assumes "findEcoTransaction i db = Some tx" and "wallet tx = Some w"
    and "snd (markProcessing i db) \<noteq> 0"
    and "metadata tx = MetaObj (Some chain) toAddress" and "chain \<noteq> []"
    and "dispatch svc env (fst (markProcessing i db)) tx i chain toAddress = (db2, effs2, res)"
  shows "processNext_try svc env db i =
     (case res of
        Inl m \<Rightarrow> (db2, effs2, Inl m)
      | Inr u \<Rightarrow> (db2, effs2 @ fst (afterTransfer env tx w chain toAddress),
                  snd (afterTransfer env tx w chain toAddress)))"
proof -
  obtain db1 cnt where mp: "markProcessing i db = (db1, cnt)" by (cases "markProcessing i db")
  with assms(3) have cnt: "cnt \<noteq> 0" by simp
  from assms(6) mp have d: "dispatch svc env db1 tx i chain toAddress = (db2, effs2, res)"
    by simp
  have pm: "parseMetadata (metadata tx) = Inr (Some (Some chain, toAddress))"
    by (simp add: assms(4) parseMetadata_def)
  show ?thesis
  proof (cases res)
    case (Inl m)
    then show ?thesis
      unfolding processNext_try_def
      by (simp add: assms(1,2,5) mp cnt d pm)
  next
    case (Inr u)
    then show ?thesis
      unfolding processNext_try_def
      by (simp add: assms(1,2,5) mp cnt d pm case_prod_beta)
  qed
qed

lemma queue_after_finally:
  "set (queue (fst (processNext_finally st i))) \<subseteq> set (queue st) \<and>
   (i \<notin> set (queue st) \<longrightarrow> i \<notin> processingTransactions (fst (processNext_finally st i)))"
proof (cases "queue st")
  case Nil
  then show ?thesis by (simp add: processNext_finally_def processNext_start_def)
next
  case (Cons j rest)
  then show ?thesis
    by (cases "j = []") (auto simp: processNext_finally_def processNext_start_def)
qed

lemma afterTransfer_profit:
  "filter isAdminProfit (fst (afterTransfer env tx w c a)) =
     (case fee tx of
        None \<Rightarrow> []
      | Some f \<Rightarrow>
          if 0 < f \<and> (userFound env \<and> userWalletFound env \<longrightarrow> confirmationEmail env = None) \<and>
             adminProfitCreate env = None
          then [AdminProfit f (currency w) c (txId tx)] else [])"
  by (auto simp: afterTransfer_def Let_def split: option.splits)


section \<open>Backend failure\<close>

lemma processItem_backend_failed:
  assumes "findEcoTransaction i db = Some tx"
    and "snd (markProcessing i db) \<noteq> 0"
    and "metadata tx = MetaObj (Some chain) toAddress" and "chain \<noteq> []"
    and "dispatch svc env (fst (markProcessing i db)) tx i chain toAddress = (db2, effs2, Inl msg)"
  shows "\<exists>tx'. findEcoTransaction i (markFailed i (''Transaction failed: '' @ msg) db2) = Some tx' \<and>
           advances tx tx' \<and> status tx' = FAILED \<and>
           processItem svc env db i =
             (markFailed i (''Transaction failed: '' @ msg) db2,
              effs2 @ fst (snd (processNext_catch env db2 i msg)),
              snd (snd (processNext_catch env db2 i msg)))"
proof -
  obtain w where w: "wallet tx = Some w" using findEco_wallet[OF assms(1)] by blast
  have tr: "processNext_try svc env db i = (db2, effs2, Inl msg)"
    using processNext_try_dispatched[OF assms(1) w assms(2-5)] by simp
  have "list_all2 advances db db2"
    using all2_advances_trans[OF markProcessing_advances dispatch_advances'[OF assms(5)]] .
  then have "list_all2 advances db (markFailed i (''Transaction failed: '' @ msg) db2)"
    using all2_advances_trans markFailed_advances by blast
  then obtain tx' where
    tx': "findEcoTransaction i (markFailed i (''Transaction failed: '' @ msg) db2) = Some tx'"
      "advances tx tx'"
    using findEco_advances[OF _ assms(1)] by blast
  from findEco_wallet[OF tx'(1)] have "txId tx' = i"
    and "tx' \<in> set (markFailed i (''Transaction failed: '' @ msg) db2)" by auto
  then have st: "status tx' = FAILED" using markFailed_rows by blast
  have "processItem svc env db i =
             (markFailed i (''Transaction failed: '' @ msg) db2,
              effs2 @ fst (snd (processNext_catch env db2 i msg)),
              snd (snd (processNext_catch env db2 i msg)))"
    using processNext_catch_db[of env db2 i msg]
    by (simp add: processItem_def tr case_prod_beta)
  with tx' st show ?thesis by blast
qed

text \<open>
  Claim C3, as the code has it. Take a withdrawal that the run claims (the row is found
  with its ECO wallet, the conditional update counts it, its metadata name a chain) and
  whose chain handler raises with message \<open>msg\<close>. Then, whatever the other collaborators
  do, the run leaves every row of that id FAILED with the non-empty description
  "Transaction failed: msg", and makes exactly one call to \<open>refundUser\<close>, with the row as
  re-read (the claimed row, same amount and owner, status FAILED). The owning user gets
  the "Withdrawal Failed" notification exactly when neither the refund nor the failure
  e-mail (sent when the user is found) nor the notification call raises, and the failure
  e-mail exactly when the refund does not raise, the user is found and the e-mail call
  does not raise; the run then ends normally. Otherwise the exception of the first of
  the three calls that raises leaves the run. In particular, when the refund raises
  there is neither e-mail nor notification; the rows stay FAILED, and \<open>finally\<close> adds
  nothing to the pending list: the id is not queued again.
\<close>

theorem backend_failure_outcome:
  assumes "findEcoTransaction i db = Some tx"
    and "snd (markProcessing i db) \<noteq> 0"
    and "metadata tx = MetaObj (Some chain) toAddress" and "chain \<noteq> []"
    and "dispatch svc env (fst (markProcessing i db)) tx i chain toAddress = (dbd, effsd, Inl msg)"
  shows "case processItem svc env db i of
     (db', effs, escaped) \<Rightarrow>
       (\<exists>r\<in>set db'. txId r = i) \<and>
       (\<forall>r\<in>set db'. txId r = i \<longrightarrow>
           status r = FAILED \<and> description r = Some (''Transaction failed: '' @ msg)) \<and>
       (\<exists>tx'. filter isRefund effs = [Refund tx'] \<and> advances tx tx' \<and> status tx' = FAILED) \<and>
       (refundUser env = None \<and> (userFound env \<longrightarrow> failedEmail env = None) \<and>
        handleNotification env = None \<longrightarrow>
          escaped = None \<and> Notification (userId tx) ''Withdrawal Failed'' \<in> set effs \<and>
          (userFound env \<longrightarrow> FailedEmail (userId tx) i toAddress msg \<in> set effs)) \<and>
       (\<forall>m. refundUser env = Some m \<longrightarrow> escaped = Some m) \<and>
       (Notification (userId tx) ''Withdrawal Failed'' \<in> set effs \<longleftrightarrow>
          refundUser env = None \<and> (userFound env \<longrightarrow> failedEmail env = None) \<and>
          handleNotification env = None) \<and>
       (FailedEmail (userId tx) i toAddress msg \<in> set effs \<longleftrightarrow>
          refundUser env = None \<and> userFound env \<and> failedEmail env = None) \<and>
       escaped =
         (case refundUser env of
            Some m \<Rightarrow> Some m
          | None \<Rightarrow>
              (case (if userFound env then failedEmail env else None) of
                 Some m \<Rightarrow> Some m
               | None \<Rightarrow> handleNotification env)) \<and>
       snd (fst (processNext_async svc env (st, db) i)) = db' \<and>
       set (queue (fst (fst (processNext_async svc env (st, db) i)))) \<subseteq> set (queue st) \<and>
       (i \<notin> set (queue st) \<longrightarrow>
          i \<notin> processingTransactions (fst (fst (processNext_async svc env (st, db) i))))"
proof -
  let ?db3 = "markFailed i (''Transaction failed: '' @ msg) dbd"
  from processItem_backend_failed[OF assms] obtain tx' where
    f: "findEcoTransaction i ?db3 = Some tx'" and adv: "advances tx tx'"
    and stf: "status tx' = FAILED"
    and run: "processItem svc env db i =
             (?db3, effsd @ fst (snd (processNext_catch env dbd i msg)),
              snd (snd (processNext_catch env dbd i msg)))"
    by blast
  from adv assms(3) have md: "metadata tx' = MetaObj (Some chain) toAddress"
    and uid: "userId tx' = userId tx" by (simp_all add: advances_def)
  from findEco_wallet[OF f] have idt: "txId tx' = i" and mem: "tx' \<in> set ?db3" by auto
  note c = processNext_catch_found[OF f md, of env]
  have nr: "filter isRefund effsd = []"
    using chainCalls_filter[OF dispatch_effects[OF assms(5)]] by simp
  have q: "fst (fst (processNext_async svc env (st, db) i)) = fst (processNext_finally st i)"
    and d: "snd (fst (processNext_async svc env (st, db) i)) = fst (processItem svc env db i)"
    by (simp_all add: processNext_async_def case_prod_beta)
  have 1: "\<exists>r\<in>set ?db3. txId r = i" using idt mem by blast
  have 2: "\<forall>r\<in>set ?db3. txId r = i \<longrightarrow>
           status r = FAILED \<and> description r = Some (''Transaction failed: '' @ msg)"
    using markFailed_rows by blast
  have 3: "\<exists>t. filter isRefund (effsd @ fst (snd (processNext_catch env dbd i msg))) = [Refund t]
              \<and> advances tx t \<and> status t = FAILED"
    using adv stf nr by (auto simp: c split: option.splits)
  have 4: "refundUser env = None \<and> (userFound env \<longrightarrow> failedEmail env = None) \<and>
        handleNotification env = None \<longrightarrow>
          snd (snd (processNext_catch env dbd i msg)) = None \<and>
          Notification (userId tx) ''Withdrawal Failed''
            \<in> set (effsd @ fst (snd (processNext_catch env dbd i msg))) \<and>
          (userFound env \<longrightarrow> FailedEmail (userId tx) i toAddress msg
            \<in> set (effsd @ fst (snd (processNext_catch env dbd i msg))))"
    by (auto simp: c uid idt)
  have 5: "\<forall>m. refundUser env = Some m \<longrightarrow> snd (snd (processNext_catch env dbd i msg)) = Some m"
    by (simp add: c)
  have "list_all isChainCall effsd" using dispatch_effects[OF assms(5)] .
  then have nn: "Notification (userId tx) ''Withdrawal Failed'' \<notin> set effsd"
    and nf: "FailedEmail (userId tx) i toAddress msg \<notin> set effsd"
    by (auto simp: list_all_iff)
  have 6: "Notification (userId tx) ''Withdrawal Failed''
             \<in> set (effsd @ fst (snd (processNext_catch env dbd i msg))) \<longleftrightarrow>
           refundUser env = None \<and> (userFound env \<longrightarrow> failedEmail env = None) \<and>
           handleNotification env = None"
    using nn by (auto simp: c uid idt split: option.splits)
  have 7: "FailedEmail (userId tx) i toAddress msg
             \<in> set (effsd @ fst (snd (processNext_catch env dbd i msg))) \<longleftrightarrow>
           refundUser env = None \<and> userFound env \<and> failedEmail env = None"
    using nf by (auto simp: c uid idt split: option.splits)
  have 8: "snd (snd (processNext_catch env dbd i msg)) =
         (case refundUser env of
            Some m \<Rightarrow> Some m
          | None \<Rightarrow>
              (case (if userFound env then failedEmail env else None) of
                 Some m \<Rightarrow> Some m
               | None \<Rightarrow> handleNotification env))"
    by (auto simp: c split: option.splits)
  show ?thesis
    unfolding run prod.case q d using 1 2 3 4 5 6 7 8 queue_after_finally[of st i]
    by (simp add: run)
qed


theorem backend_failure_outcome_witness:
  "findEcoTransaction ''tx1'' [ex_tx] = Some ex_tx \<and>
   snd (markProcessing ''tx1'' [ex_tx]) \<noteq> 0 \<and>
   snd (snd (dispatch ex_svc
               (ex_env\<lparr>solEnv := ex_solEnv\<lparr>sendRawTransaction := Inl ''insufficient funds''\<rparr>\<rparr>)
               (fst (markProcessing ''tx1'' [ex_tx])) ex_tx ''tx1'' ''SOL'' ''Addr1''))
     = Inl ''Failed to transfer SOL: insufficient funds'' \<and>
   processItem ex_svc
       (ex_env\<lparr>solEnv := ex_solEnv\<lparr>sendRawTransaction := Inl ''insufficient funds''\<rparr>\<rparr>)
       [ex_tx] ''tx1''
     = ([ex_tx\<lparr>status := FAILED,
              description :=
                Some ''Transaction failed: Failed to transfer SOL: insufficient funds''\<rparr>],
        [SolRpc ''getLatestBlockhash'', SolSendRawTransaction ''w1'' ''Addr1'' 1000000000,
         Refund (ex_tx\<lparr>status := FAILED,
                   description :=
                     Some ''Transaction failed: Failed to transfer SOL: insufficient funds''\<rparr>),
         FailedEmail ''u1'' ''tx1'' ''Addr1'' ''Failed to transfer SOL: insufficient funds'',
         Notification ''u1'' ''Withdrawal Failed''],
        None) \<and>
   processItem ex_svc
       (ex_env\<lparr>solEnv := ex_solEnv\<lparr>sendRawTransaction := Inl ''insufficient funds''\<rparr>,
               handleNotification := Some ''push failed''\<rparr>)
       [ex_tx] ''tx1''
     = ([ex_tx\<lparr>status := FAILED,
              description :=
                Some ''Transaction failed: Failed to transfer SOL: insufficient funds''\<rparr>],
        [SolRpc ''getLatestBlockhash'', SolSendRawTransaction ''w1'' ''Addr1'' 1000000000,
         Refund (ex_tx\<lparr>status := FAILED,
                   description :=
                     Some ''Transaction failed: Failed to transfer SOL: insufficient funds''\<rparr>),
         FailedEmail ''u1'' ''tx1'' ''Addr1'' ''Failed to transfer SOL: insufficient funds''],
        Some ''push failed'')"
  using backend_failure_outcome
          [where i = "''tx1''" and db = "[ex_tx]" and tx = ex_tx and chain = "''SOL''"
             and toAddress = "''Addr1''" and svc = ex_svc
             and env = "ex_env\<lparr>solEnv := ex_solEnv\<lparr>sendRawTransaction := Inl ''insufficient funds''\<rparr>\<rparr>"
             and dbd = "[ex_tx\<lparr>status := FAILED,
                   description :=
                     Some ''Withdrawal failed: Failed to transfer SOL: insufficient funds''\<rparr>]"
             and effsd = "[SolRpc ''getLatestBlockhash'',
                           SolSendRawTransaction ''w1'' ''Addr1'' 1000000000]"
             and msg = "''Failed to transfer SOL: insufficient funds''"
             and st = ex_idle]
    backend_failure_outcome
          [where i = "''tx1''" and db = "[ex_tx]" and tx = ex_tx and chain = "''SOL''"
             and toAddress = "''Addr1''" and svc = ex_svc
             and env = "ex_env\<lparr>solEnv := ex_solEnv\<lparr>sendRawTransaction := Inl ''insufficient funds''\<rparr>,
                               handleNotification := Some ''push failed''\<rparr>"
             and dbd = "[ex_tx\<lparr>status := FAILED,
                   description :=
                     Some ''Withdrawal failed: Failed to transfer SOL: insufficient funds''\<rparr>]"
             and effsd = "[SolRpc ''getLatestBlockhash'',
                           SolSendRawTransaction ''w1'' ''Addr1'' 1000000000]"
             and msg = "''Failed to transfer SOL: insufficient funds''"
             and st = ex_idle]
  by (simp add: eval_defs)

text \<open>
  Claim C3, as stated, fails when the refund itself raises: the handler raised, the row
  is FAILED and \<open>refundUser\<close> was called once, but its exception leaves the \<open>catch\<close>
  block before the e-mail and the notification, so the user is not notified.
\<close>

theorem refund_failure_skips_notification:
  "snd (snd (dispatch ex_svc
               (ex_env\<lparr>solEnv := ex_solEnv\<lparr>sendRawTransaction := Inl ''insufficient funds''\<rparr>,
                       refundUser := Some ''refund failed''\<rparr>)
               (fst (markProcessing ''tx1'' [ex_tx])) ex_tx ''tx1'' ''SOL'' ''Addr1''))
     = Inl ''Failed to transfer SOL: insufficient funds'' \<and>
   processItem ex_svc
       (ex_env\<lparr>solEnv := ex_solEnv\<lparr>sendRawTransaction := Inl ''insufficient funds''\<rparr>,
               refundUser := Some ''refund failed''\<rparr>)
       [ex_tx] ''tx1''
     = ([ex_tx\<lparr>status := FAILED,
              description :=
                Some ''Transaction failed: Failed to transfer SOL: insufficient funds''\<rparr>],
        [SolRpc ''getLatestBlockhash'', SolSendRawTransaction ''w1'' ''Addr1'' 1000000000,
         Refund (ex_tx\<lparr>status := FAILED,
                   description :=
                     Some ''Transaction failed: Failed to transfer SOL: insufficient funds''\<rparr>)],
        Some ''refund failed'') \<and>
   Notification ''u1'' ''Withdrawal Failed''
     \<notin> set (fst (snd (processItem ex_svc
            (ex_env\<lparr>solEnv := ex_solEnv\<lparr>sendRawTransaction := Inl ''insufficient funds''\<rparr>,
                    refundUser := Some ''refund failed''\<rparr>)
            [ex_tx] ''tx1'')))"
  by (simp add: eval_defs)

section \<open>Admin profit\<close>

lemma processItem_effects:
  "fst (snd (processItem svc env db i)) =
     (case processNext_try svc env db i of
        (db1, effs, Inr u) \<Rightarrow> effs
      | (db1, effs, Inl m) \<Rightarrow> effs @ fst (snd (processNext_catch env db1 i m)))"
  by (simp add: processItem_def case_prod_beta split: sum.splits)

text \<open>
  Claim C8, as the code has it. Take a withdrawal that the run claims and whose chain
  handler returns normally. The run creates exactly one admin-profit row, with the
  transaction's fee as amount, the wallet's currency, the routing chain and the
  transaction id, when the fee is a number greater than zero and neither the
  confirmation e-mail (sent when the user and the user's wallet are found) nor the
  ledger write raises; in every other case, in particular when the fee is absent or
  not positive, it creates none.
\<close>

theorem admin_profit_entry:
  assumes "findEcoTransaction i db = Some tx" and "wallet tx = Some w"
    and "snd (markProcessing i db) \<noteq> 0"
    and "metadata tx = MetaObj (Some chain) toAddress" and "chain \<noteq> []"
    and "dispatch svc env (fst (markProcessing i db)) tx i chain toAddress = (dbd, effsd, Inr u)"
  shows "filter isAdminProfit (fst (snd (processItem svc env db i))) =
     (case fee tx of
        None \<Rightarrow> []
      | Some f \<Rightarrow>
          if 0 < f \<and> (userFound env \<and> userWalletFound env \<longrightarrow> confirmationEmail env = None) \<and>
             adminProfitCreate env = None
          then [AdminProfit f (currency w) chain i] else [])"
proof -
  have tr: "processNext_try svc env db i =
      (dbd, effsd @ fst (afterTransfer env tx w chain toAddress),
       snd (afterTransfer env tx w chain toAddress))"
    using processNext_try_dispatched[OF assms] by simp
  have idt: "txId tx = i" using findEco_wallet[OF assms(1)] by simp
  have n2: "filter isAdminProfit effsd = []"
    using chainCalls_filter[OF dispatch_effects[OF assms(6)]] by simp
  have "filter isAdminProfit (fst (snd (processItem svc env db i))) =
      filter isAdminProfit (fst (afterTransfer env tx w chain toAddress))"
    by (simp add: processItem_effects tr n2 processNext_catch_no_profit split: sum.splits)
  then show ?thesis
    using idt afterTransfer_profit[of env tx w chain toAddress] by (auto split: option.splits)
qed

theorem admin_profit_entry_witness:
  "findEcoTransaction ''tx1'' [ex_tx] = Some ex_tx \<and> wallet ex_tx = Some ex_wallet \<and>
   snd (markProcessing ''tx1'' [ex_tx]) \<noteq> 0 \<and>
   snd (snd (dispatch ex_svc ex_env (fst (markProcessing ''tx1'' [ex_tx])) ex_tx ''tx1''
               ''SOL'' ''Addr1'')) = Inr () \<and>
   fee ex_tx = Some (5 / 2) \<and>
   filter isAdminProfit (fst (snd (processItem ex_svc ex_env [ex_tx] ''tx1'')))
     = [AdminProfit (5 / 2) ''SOL'' ''SOL'' ''tx1''] \<and>
   filter isAdminProfit
     (fst (snd (processItem ex_svc ex_env [ex_tx\<lparr>fee := Some 0\<rparr>] ''tx1''))) = [] \<and>
   filter isAdminProfit
     (fst (snd (processItem ex_svc ex_env [ex_tx\<lparr>fee := None\<rparr>] ''tx1''))) = []"
  using admin_profit_entry
          [where i = "''tx1''" and db = "[ex_tx]" and tx = ex_tx and w = ex_wallet
             and chain = "''SOL''" and toAddress = "''Addr1''" and svc = ex_svc and env = ex_env
             and dbd = "[ex_tx\<lparr>status := COMPLETED, referenceId := Some ''Sig1''\<rparr>]"
             and effsd = "[SolRpc ''getLatestBlockhash'',
                  SolSendRawTransaction ''w1'' ''Addr1'' 1000000000,
                  SolRpc ''confirmTransaction'', Log ''Transaction confirmation failed: timeout'',
                  SolRpc ''getTransaction'']" and u = "()"]
  by (simp add: eval_defs)

text \<open>
  Claim C8, as stated, fails when the confirmation e-mail raises: the transfer
  succeeded and the fee is 2.5, yet the exception skips the ledger write and no
  admin-profit row is created.
\<close>

theorem email_failure_skips_admin_profit:
  "snd (snd (dispatch ex_svc (ex_env\<lparr>confirmationEmail := Some ''Redis connection lost''\<rparr>)
               (fst (markProcessing ''tx1'' [ex_tx])) ex_tx ''tx1'' ''SOL'' ''Addr1'')) = Inr () \<and>
   fee ex_tx = Some (5 / 2) \<and>
   filter isAdminProfit
     (fst (snd (processItem ex_svc (ex_env\<lparr>confirmationEmail := Some ''Redis connection lost''\<rparr>)
                  [ex_tx] ''tx1''))) = []"
  by (simp add: eval_defs)


section \<open>Deposit de-duplication\<close>

lemma fetchTransaction_found:
  assumes "g 0 = Inr (Some t)"
  shows "fetchTransaction 30 g 0 = ([SolRpc ''getTransaction''], Some t)"
proof -
  have "(30::nat) = Suc 29" by simp
  then show ?thesis using assms by (simp only: fetchTransaction.simps) simp
qed

text \<open>
  Claim C5 does not hold of the code. The two checks of \<open>processMoneroTransaction\<close> and
  its store are separated by awaits, and the monitor runs several poll loops at once:
  adding wallet \<open>w10\<close> after wallet \<open>w9\<close> starts a second loop for \<open>w9\<close>. When two calls for
  the same transaction id \<open>h1\<close> overlap, each running one stretch in turn, both find the
  set and the table empty and both store: the table ends with two COMPLETED deposit rows
  whose referenceId is \<open>h1\<close>, and the deposit is broadcast twice. Run one after the other,
  the second call is skipped. The Solana monitor checks nothing before it stores: two
  notifications of the signature \<open>Sig9\<close> give two rows.
\<close>

theorem overlapping_polls_store_twice:
  "pollLoops (monitorMoneroDeposits
                (monitorMoneroDeposits \<lparr>monitoredWallets = [], pollLoops = []\<rparr> ''w9'') ''w10'')
     = [''w9'', ''w9'', ''w10''] \<and>
   (case interleave [First, Second, First, Second, First, Second, First, Second]
           (({}, []), ex_call, ex_call\<lparr>callEnv := ex_monEnv\<lparr>newId := ''d2''\<rparr>\<rparr>) of
      (((processed, db), a, b), effs) \<Rightarrow>
         map txId db = [''d1'', ''d2''] \<and>
         map txType db = [DEPOSIT, DEPOSIT] \<and>
         map referenceId db = [Some ''h1'', Some ''h1''] \<and>
         map status db = [COMPLETED, COMPLETED] \<and>
         callAt a = TaskReturned True \<and> callAt b = TaskReturned True \<and>
         effs = [XmrWalletRpc ''get_transfer_by_txid'', XmrWalletRpc ''get_transfer_by_txid'',
                 StoreAndBroadcast ''w9'' ''h1'' (150 / 10 ^ 8) (Some (1 / 10 ^ 8)),
                 StoreAndBroadcast ''w9'' ''h1'' (150 / 10 ^ 8) (Some (1 / 10 ^ 8))]) \<and>
   (case interleave [First, First, First, First, Second, Second, Second, Second]
           (({}, []), ex_call, ex_call\<lparr>callEnv := ex_monEnv\<lparr>newId := ''d2''\<rparr>\<rparr>) of
      (((processed, db), a, b), effs) \<Rightarrow>
         map txId db = [''d1''] \<and> processed = {''h1''} \<and>
         callAt a = TaskReturned True \<and> callAt b = TaskReturned False) \<and>
   (case trackTransactionSignature (ex_solMonEnv\<lparr>sol_newId := ''d2''\<rparr>)
           (fst (trackTransactionSignature ex_solMonEnv [] ''Sig9'' ex_mw ''SolAddr1''))
           ''Sig9'' ex_mw ''SolAddr1'' of
      (db, effs) \<Rightarrow>
         map txId db = [''d1'', ''d2''] \<and>
         map referenceId db = [Some ''Sig9'', Some ''Sig9''] \<and>
         map status db = [COMPLETED, COMPLETED])"
  by (simp add: monitorMoneroDeposits_def processMoneroTransaction_step_def findOne_def
        storeAndBroadcastTransaction_def depositRow_def ex_call_def ex_monEnv_def ex_mw_def
        atomicToFixed8_1500000 atomicToFixed8_tie trackTransactionSignature_def
        ex_solMonEnv_def fetchTransaction_found)

end
